theory Spec2Isabelle
  imports Main "HOL-Library.Sublist"
begin

unbundle bit_operations_syntax

section \<open>Python strings\<close>

text \<open>
  A Python \<open>str\<close> is a sequence of Unicode code points, and \<open>len\<close> counts code points.
  A string is modelled as the list of its code points. The strings the parser handles come
  out of the HTML decoder, so they hold Unicode scalar values only; on those
  \<open>str.encode('utf-8')\<close> never raises.
\<close>

type_synonym codepoint = nat
type_synonym pystr = "codepoint list"

definition str_of :: "string \<Rightarrow> pystr" where
  "str_of s = map of_char s"

text \<open>
  \<open>str.isspace\<close>, \<open>str.strip()\<close> without arguments and the regular expression class
  \<open>\s\<close> (on \<open>str\<close> patterns) share one table of white space; it is listed here in
  full for the whole of Unicode.
\<close>

definition py_isspace :: "codepoint \<Rightarrow> bool" where
  "py_isspace c \<longleftrightarrow>
     (9 \<le> c \<and> c \<le> 13) \<or> (28 \<le> c \<and> c \<le> 32) \<or> c = 133 \<or> c = 160 \<or> c = 5760 \<or>
     (8192 \<le> c \<and> c \<le> 8202) \<or> c = 8232 \<or> c = 8233 \<or> c = 8239 \<or> c = 8287 \<or> c = 12288"

definition py_strip :: "pystr \<Rightarrow> pystr" where
  "py_strip s = rev (dropWhile py_isspace (rev (dropWhile py_isspace s)))"

section \<open>The Unicode tables of the interpreter\<close>

text \<open>
  Case mappings and character classes are those of CPython 3.11, whose tables are Unicode
  14.0.0. Each class is a sorted list of inclusive ranges of code points. A row
  \<open>(lo, hi, stride, t)\<close> of a case mapping sends \<open>lo\<close> to \<open>t\<close> and every
  \<open>stride\<close>-th code point up to \<open>hi\<close> to the code point at the same distance from
  \<open>t\<close>; the code points whose image is longer than one character are listed apart.
  Every table is cut into blocks of sixteen entries, and \<open>..._block c\<close> is the one block
  that can hold \<open>c\<close>.
  \<^item> \<open>alnum_ranges\<close>: \<open>str.isalnum\<close>;
  \<^item> \<open>digit_ranges\<close>: \<open>str.isdigit\<close>;
  \<^item> \<open>cased_ranges\<close> and \<open>case_ignorable_ranges\<close>: the properties Cased and
    Case_Ignorable, which decide the lower case of the capital sigma;
  \<^item> \<open>lower_rows\<close>, \<open>lower_special\<close>, \<open>upper_rows\<close>, \<open>upper_special\<close>:
    \<open>str.lower\<close> and \<open>str.upper\<close> of one character.
\<close>

definition alnum_ranges_1 :: "(codepoint \<times> codepoint) list" where
  "alnum_ranges_1 =
    [(48, 57), (65, 90), (97, 122), (170, 170), (178, 179), (181, 181),
     (185, 186), (188, 190), (192, 214), (216, 246), (248, 705), (710, 721),
     (736, 740), (748, 748), (750, 750), (880, 884)]"

definition alnum_ranges_2 :: "(codepoint \<times> codepoint) list" where
  "alnum_ranges_2 =
    [(886, 887), (890, 893), (895, 895), (902, 902), (904, 906), (908, 908),
     (910, 929), (931, 1013), (1015, 1153), (1162, 1327), (1329, 1366), (1369, 1369),
     (1376, 1416), (1488, 1514), (1519, 1522), (1568, 1610)]"

definition alnum_ranges_3 :: "(codepoint \<times> codepoint) list" where
  "alnum_ranges_3 =
    [(1632, 1641), (1646, 1647), (1649, 1747), (1749, 1749), (1765, 1766), (1774, 1788),
     (1791, 1791), (1808, 1808), (1810, 1839), (1869, 1957), (1969, 1969), (1984, 2026),
     (2036, 2037), (2042, 2042), (2048, 2069), (2074, 2074)]"

definition alnum_ranges_4 :: "(codepoint \<times> codepoint) list" where
  "alnum_ranges_4 =
    [(2084, 2084), (2088, 2088), (2112, 2136), (2144, 2154), (2160, 2183), (2185, 2190),
     (2208, 2249), (2308, 2361), (2365, 2365), (2384, 2384), (2392, 2401), (2406, 2415),
     (2417, 2432), (2437, 2444), (2447, 2448), (2451, 2472)]"

definition alnum_ranges_5 :: "(codepoint \<times> codepoint) list" where
  "alnum_ranges_5 =
    [(2474, 2480), (2482, 2482), (2486, 2489), (2493, 2493), (2510, 2510), (2524, 2525),
     (2527, 2529), (2534, 2545), (2548, 2553), (2556, 2556), (2565, 2570), (2575, 2576),
     (2579, 2600), (2602, 2608), (2610, 2611), (2613, 2614)]"

definition alnum_ranges_6 :: "(codepoint \<times> codepoint) list" where
  "alnum_ranges_6 =
    [(2616, 2617), (2649, 2652), (2654, 2654), (2662, 2671), (2674, 2676), (2693, 2701),
     (2703, 2705), (2707, 2728), (2730, 2736), (2738, 2739), (2741, 2745), (2749, 2749),
     (2768, 2768), (2784, 2785), (2790, 2799), (2809, 2809)]"

definition alnum_ranges_7 :: "(codepoint \<times> codepoint) list" where
  "alnum_ranges_7 =
    [(2821, 2828), (2831, 2832), (2835, 2856), (2858, 2864), (2866, 2867), (2869, 2873),
     (2877, 2877), (2908, 2909), (2911, 2913), (2918, 2927), (2929, 2935), (2947, 2947),
     (2949, 2954), (2958, 2960), (2962, 2965), (2969, 2970)]"

definition alnum_ranges_8 :: "(codepoint \<times> codepoint) list" where
  "alnum_ranges_8 =
    [(2972, 2972), (2974, 2975), (2979, 2980), (2984, 2986), (2990, 3001), (3024, 3024),
     (3046, 3058), (3077, 3084), (3086, 3088), (3090, 3112), (3114, 3129), (3133, 3133),
     (3160, 3162), (3165, 3165), (3168, 3169), (3174, 3183)]"

definition alnum_ranges_9 :: "(codepoint \<times> codepoint) list" where
  "alnum_ranges_9 =
    [(3192, 3198), (3200, 3200), (3205, 3212), (3214, 3216), (3218, 3240), (3242, 3251),
     (3253, 3257), (3261, 3261), (3293, 3294), (3296, 3297), (3302, 3311), (3313, 3314),
     (3332, 3340), (3342, 3344), (3346, 3386), (3389, 3389)]"

definition alnum_ranges_10 :: "(codepoint \<times> codepoint) list" where
  "alnum_ranges_10 =
    [(3406, 3406), (3412, 3414), (3416, 3425), (3430, 3448), (3450, 3455), (3461, 3478),
     (3482, 3505), (3507, 3515), (3517, 3517), (3520, 3526), (3558, 3567), (3585, 3632),
     (3634, 3635), (3648, 3654), (3664, 3673), (3713, 3714)]"

definition alnum_ranges_11 :: "(codepoint \<times> codepoint) list" where
  "alnum_ranges_11 =
    [(3716, 3716), (3718, 3722), (3724, 3747), (3749, 3749), (3751, 3760), (3762, 3763),
     (3773, 3773), (3776, 3780), (3782, 3782), (3792, 3801), (3804, 3807), (3840, 3840),
     (3872, 3891), (3904, 3911), (3913, 3948), (3976, 3980)]"

definition alnum_ranges_12 :: "(codepoint \<times> codepoint) list" where
  "alnum_ranges_12 =
    [(4096, 4138), (4159, 4169), (4176, 4181), (4186, 4189), (4193, 4193), (4197, 4198),
     (4206, 4208), (4213, 4225), (4238, 4238), (4240, 4249), (4256, 4293), (4295, 4295),
     (4301, 4301), (4304, 4346), (4348, 4680), (4682, 4685)]"

definition alnum_ranges_13 :: "(codepoint \<times> codepoint) list" where
  "alnum_ranges_13 =
    [(4688, 4694), (4696, 4696), (4698, 4701), (4704, 4744), (4746, 4749), (4752, 4784),
     (4786, 4789), (4792, 4798), (4800, 4800), (4802, 4805), (4808, 4822), (4824, 4880),
     (4882, 4885), (4888, 4954), (4969, 4988), (4992, 5007)]"

definition alnum_ranges_14 :: "(codepoint \<times> codepoint) list" where
  "alnum_ranges_14 =
    [(5024, 5109), (5112, 5117), (5121, 5740), (5743, 5759), (5761, 5786), (5792, 5866),
     (5870, 5880), (5888, 5905), (5919, 5937), (5952, 5969), (5984, 5996), (5998, 6000),
     (6016, 6067), (6103, 6103), (6108, 6108), (6112, 6121)]"

definition alnum_ranges_15 :: "(codepoint \<times> codepoint) list" where
  "alnum_ranges_15 =
    [(6128, 6137), (6160, 6169), (6176, 6264), (6272, 6276), (6279, 6312), (6314, 6314),
     (6320, 6389), (6400, 6430), (6470, 6509), (6512, 6516), (6528, 6571), (6576, 6601),
     (6608, 6618), (6656, 6678), (6688, 6740), (6784, 6793)]"

definition alnum_ranges_16 :: "(codepoint \<times> codepoint) list" where
  "alnum_ranges_16 =
    [(6800, 6809), (6823, 6823), (6917, 6963), (6981, 6988), (6992, 7001), (7043, 7072),
     (7086, 7141), (7168, 7203), (7232, 7241), (7245, 7293), (7296, 7304), (7312, 7354),
     (7357, 7359), (7401, 7404), (7406, 7411), (7413, 7414)]"

definition alnum_ranges_17 :: "(codepoint \<times> codepoint) list" where
  "alnum_ranges_17 =
    [(7418, 7418), (7424, 7615), (7680, 7957), (7960, 7965), (7968, 8005), (8008, 8013),
     (8016, 8023), (8025, 8025), (8027, 8027), (8029, 8029), (8031, 8061), (8064, 8116),
     (8118, 8124), (8126, 8126), (8130, 8132), (8134, 8140)]"

definition alnum_ranges_18 :: "(codepoint \<times> codepoint) list" where
  "alnum_ranges_18 =
    [(8144, 8147), (8150, 8155), (8160, 8172), (8178, 8180), (8182, 8188), (8304, 8305),
     (8308, 8313), (8319, 8329), (8336, 8348), (8450, 8450), (8455, 8455), (8458, 8467),
     (8469, 8469), (8473, 8477), (8484, 8484), (8486, 8486)]"

definition alnum_ranges_19 :: "(codepoint \<times> codepoint) list" where
  "alnum_ranges_19 =
    [(8488, 8488), (8490, 8493), (8495, 8505), (8508, 8511), (8517, 8521), (8526, 8526),
     (8528, 8585), (9312, 9371), (9450, 9471), (10102, 10131), (11264, 11492), (11499, 11502),
     (11506, 11507), (11517, 11517), (11520, 11557), (11559, 11559)]"

definition alnum_ranges_20 :: "(codepoint \<times> codepoint) list" where
  "alnum_ranges_20 =
    [(11565, 11565), (11568, 11623), (11631, 11631), (11648, 11670), (11680, 11686), (11688, 11694),
     (11696, 11702), (11704, 11710), (11712, 11718), (11720, 11726), (11728, 11734), (11736, 11742),
     (11823, 11823), (12293, 12295), (12321, 12329), (12337, 12341)]"

definition alnum_ranges_21 :: "(codepoint \<times> codepoint) list" where
  "alnum_ranges_21 =
    [(12344, 12348), (12353, 12438), (12445, 12447), (12449, 12538), (12540, 12543), (12549, 12591),
     (12593, 12686), (12690, 12693), (12704, 12735), (12784, 12799), (12832, 12841), (12872, 12879),
     (12881, 12895), (12928, 12937), (12977, 12991), (13312, 19903)]"

definition alnum_ranges_22 :: "(codepoint \<times> codepoint) list" where
  "alnum_ranges_22 =
    [(19968, 42124), (42192, 42237), (42240, 42508), (42512, 42539), (42560, 42606), (42623, 42653),
     (42656, 42735), (42775, 42783), (42786, 42888), (42891, 42954), (42960, 42961), (42963, 42963),
     (42965, 42969), (42994, 43009), (43011, 43013), (43015, 43018)]"

definition alnum_ranges_23 :: "(codepoint \<times> codepoint) list" where
  "alnum_ranges_23 =
    [(43020, 43042), (43056, 43061), (43072, 43123), (43138, 43187), (43216, 43225), (43250, 43255),
     (43259, 43259), (43261, 43262), (43264, 43301), (43312, 43334), (43360, 43388), (43396, 43442),
     (43471, 43481), (43488, 43492), (43494, 43518), (43520, 43560)]"

definition alnum_ranges_24 :: "(codepoint \<times> codepoint) list" where
  "alnum_ranges_24 =
    [(43584, 43586), (43588, 43595), (43600, 43609), (43616, 43638), (43642, 43642), (43646, 43695),
     (43697, 43697), (43701, 43702), (43705, 43709), (43712, 43712), (43714, 43714), (43739, 43741),
     (43744, 43754), (43762, 43764), (43777, 43782), (43785, 43790)]"

definition alnum_ranges_25 :: "(codepoint \<times> codepoint) list" where
  "alnum_ranges_25 =
    [(43793, 43798), (43808, 43814), (43816, 43822), (43824, 43866), (43868, 43881), (43888, 44002),
     (44016, 44025), (44032, 55203), (55216, 55238), (55243, 55291), (63744, 64109), (64112, 64217),
     (64256, 64262), (64275, 64279), (64285, 64285), (64287, 64296)]"

definition alnum_ranges_26 :: "(codepoint \<times> codepoint) list" where
  "alnum_ranges_26 =
    [(64298, 64310), (64312, 64316), (64318, 64318), (64320, 64321), (64323, 64324), (64326, 64433),
     (64467, 64829), (64848, 64911), (64914, 64967), (65008, 65019), (65136, 65140), (65142, 65276),
     (65296, 65305), (65313, 65338), (65345, 65370), (65382, 65470)]"

definition alnum_ranges_27 :: "(codepoint \<times> codepoint) list" where
  "alnum_ranges_27 =
    [(65474, 65479), (65482, 65487), (65490, 65495), (65498, 65500), (65536, 65547), (65549, 65574),
     (65576, 65594), (65596, 65597), (65599, 65613), (65616, 65629), (65664, 65786), (65799, 65843),
     (65856, 65912), (65930, 65931), (66176, 66204), (66208, 66256)]"

definition alnum_ranges_28 :: "(codepoint \<times> codepoint) list" where
  "alnum_ranges_28 =
    [(66273, 66299), (66304, 66339), (66349, 66378), (66384, 66421), (66432, 66461), (66464, 66499),
     (66504, 66511), (66513, 66517), (66560, 66717), (66720, 66729), (66736, 66771), (66776, 66811),
     (66816, 66855), (66864, 66915), (66928, 66938), (66940, 66954)]"

definition alnum_ranges_29 :: "(codepoint \<times> codepoint) list" where
  "alnum_ranges_29 =
    [(66956, 66962), (66964, 66965), (66967, 66977), (66979, 66993), (66995, 67001), (67003, 67004),
     (67072, 67382), (67392, 67413), (67424, 67431), (67456, 67461), (67463, 67504), (67506, 67514),
     (67584, 67589), (67592, 67592), (67594, 67637), (67639, 67640)]"

definition alnum_ranges_30 :: "(codepoint \<times> codepoint) list" where
  "alnum_ranges_30 =
    [(67644, 67644), (67647, 67669), (67672, 67702), (67705, 67742), (67751, 67759), (67808, 67826),
     (67828, 67829), (67835, 67867), (67872, 67897), (67968, 68023), (68028, 68047), (68050, 68096),
     (68112, 68115), (68117, 68119), (68121, 68149), (68160, 68168)]"

definition alnum_ranges_31 :: "(codepoint \<times> codepoint) list" where
  "alnum_ranges_31 =
    [(68192, 68222), (68224, 68255), (68288, 68295), (68297, 68324), (68331, 68335), (68352, 68405),
     (68416, 68437), (68440, 68466), (68472, 68497), (68521, 68527), (68608, 68680), (68736, 68786),
     (68800, 68850), (68858, 68899), (68912, 68921), (69216, 69246)]"

definition alnum_ranges_32 :: "(codepoint \<times> codepoint) list" where
  "alnum_ranges_32 =
    [(69248, 69289), (69296, 69297), (69376, 69415), (69424, 69445), (69457, 69460), (69488, 69505),
     (69552, 69579), (69600, 69622), (69635, 69687), (69714, 69743), (69745, 69746), (69749, 69749),
     (69763, 69807), (69840, 69864), (69872, 69881), (69891, 69926)]"

definition alnum_ranges_33 :: "(codepoint \<times> codepoint) list" where
  "alnum_ranges_33 =
    [(69942, 69951), (69956, 69956), (69959, 69959), (69968, 70002), (70006, 70006), (70019, 70066),
     (70081, 70084), (70096, 70106), (70108, 70108), (70113, 70132), (70144, 70161), (70163, 70187),
     (70272, 70278), (70280, 70280), (70282, 70285), (70287, 70301)]"

definition alnum_ranges_34 :: "(codepoint \<times> codepoint) list" where
  "alnum_ranges_34 =
    [(70303, 70312), (70320, 70366), (70384, 70393), (70405, 70412), (70415, 70416), (70419, 70440),
     (70442, 70448), (70450, 70451), (70453, 70457), (70461, 70461), (70480, 70480), (70493, 70497),
     (70656, 70708), (70727, 70730), (70736, 70745), (70751, 70753)]"

definition alnum_ranges_35 :: "(codepoint \<times> codepoint) list" where
  "alnum_ranges_35 =
    [(70784, 70831), (70852, 70853), (70855, 70855), (70864, 70873), (71040, 71086), (71128, 71131),
     (71168, 71215), (71236, 71236), (71248, 71257), (71296, 71338), (71352, 71352), (71360, 71369),
     (71424, 71450), (71472, 71483), (71488, 71494), (71680, 71723)]"

definition alnum_ranges_36 :: "(codepoint \<times> codepoint) list" where
  "alnum_ranges_36 =
    [(71840, 71922), (71935, 71942), (71945, 71945), (71948, 71955), (71957, 71958), (71960, 71983),
     (71999, 71999), (72001, 72001), (72016, 72025), (72096, 72103), (72106, 72144), (72161, 72161),
     (72163, 72163), (72192, 72192), (72203, 72242), (72250, 72250)]"

definition alnum_ranges_37 :: "(codepoint \<times> codepoint) list" where
  "alnum_ranges_37 =
    [(72272, 72272), (72284, 72329), (72349, 72349), (72368, 72440), (72704, 72712), (72714, 72750),
     (72768, 72768), (72784, 72812), (72818, 72847), (72960, 72966), (72968, 72969), (72971, 73008),
     (73030, 73030), (73040, 73049), (73056, 73061), (73063, 73064)]"

definition alnum_ranges_38 :: "(codepoint \<times> codepoint) list" where
  "alnum_ranges_38 =
    [(73066, 73097), (73112, 73112), (73120, 73129), (73440, 73458), (73648, 73648), (73664, 73684),
     (73728, 74649), (74752, 74862), (74880, 75075), (77712, 77808), (77824, 78894), (82944, 83526),
     (92160, 92728), (92736, 92766), (92768, 92777), (92784, 92862)]"

definition alnum_ranges_39 :: "(codepoint \<times> codepoint) list" where
  "alnum_ranges_39 =
    [(92864, 92873), (92880, 92909), (92928, 92975), (92992, 92995), (93008, 93017), (93019, 93025),
     (93027, 93047), (93053, 93071), (93760, 93846), (93952, 94026), (94032, 94032), (94099, 94111),
     (94176, 94177), (94179, 94179), (94208, 100343), (100352, 101589)]"

definition alnum_ranges_40 :: "(codepoint \<times> codepoint) list" where
  "alnum_ranges_40 =
    [(101632, 101640), (110576, 110579), (110581, 110587), (110589, 110590), (110592, 110882), (110928, 110930),
     (110948, 110951), (110960, 111355), (113664, 113770), (113776, 113788), (113792, 113800), (113808, 113817),
     (119520, 119539), (119648, 119672), (119808, 119892), (119894, 119964)]"

definition alnum_ranges_41 :: "(codepoint \<times> codepoint) list" where
  "alnum_ranges_41 =
    [(119966, 119967), (119970, 119970), (119973, 119974), (119977, 119980), (119982, 119993), (119995, 119995),
     (119997, 120003), (120005, 120069), (120071, 120074), (120077, 120084), (120086, 120092), (120094, 120121),
     (120123, 120126), (120128, 120132), (120134, 120134), (120138, 120144)]"

definition alnum_ranges_42 :: "(codepoint \<times> codepoint) list" where
  "alnum_ranges_42 =
    [(120146, 120485), (120488, 120512), (120514, 120538), (120540, 120570), (120572, 120596), (120598, 120628),
     (120630, 120654), (120656, 120686), (120688, 120712), (120714, 120744), (120746, 120770), (120772, 120779),
     (120782, 120831), (122624, 122654), (123136, 123180), (123191, 123197)]"

definition alnum_ranges_43 :: "(codepoint \<times> codepoint) list" where
  "alnum_ranges_43 =
    [(123200, 123209), (123214, 123214), (123536, 123565), (123584, 123627), (123632, 123641), (124896, 124902),
     (124904, 124907), (124909, 124910), (124912, 124926), (124928, 125124), (125127, 125135), (125184, 125251),
     (125259, 125259), (125264, 125273), (126065, 126123), (126125, 126127)]"

definition alnum_ranges_44 :: "(codepoint \<times> codepoint) list" where
  "alnum_ranges_44 =
    [(126129, 126132), (126209, 126253), (126255, 126269), (126464, 126467), (126469, 126495), (126497, 126498),
     (126500, 126500), (126503, 126503), (126505, 126514), (126516, 126519), (126521, 126521), (126523, 126523),
     (126530, 126530), (126535, 126535), (126537, 126537), (126539, 126539)]"

definition alnum_ranges_45 :: "(codepoint \<times> codepoint) list" where
  "alnum_ranges_45 =
    [(126541, 126543), (126545, 126546), (126548, 126548), (126551, 126551), (126553, 126553), (126555, 126555),
     (126557, 126557), (126559, 126559), (126561, 126562), (126564, 126564), (126567, 126570), (126572, 126578),
     (126580, 126583), (126585, 126588), (126590, 126590), (126592, 126601)]"

definition alnum_ranges_46 :: "(codepoint \<times> codepoint) list" where
  "alnum_ranges_46 =
    [(126603, 126619), (126625, 126627), (126629, 126633), (126635, 126651), (127232, 127244), (130032, 130041),
     (131072, 173791), (173824, 177976), (177984, 178205), (178208, 183969), (183984, 191456), (194560, 195101),
     (196608, 201546)]"

definition alnum_ranges_block :: "codepoint \<Rightarrow> (codepoint \<times> codepoint) list" where
  "alnum_ranges_block c =
     (if c < 886 then alnum_ranges_1
      else if c < 1632 then alnum_ranges_2
      else if c < 2084 then alnum_ranges_3
      else if c < 2474 then alnum_ranges_4
      else if c < 2616 then alnum_ranges_5
      else if c < 2821 then alnum_ranges_6
      else if c < 2972 then alnum_ranges_7
      else if c < 3192 then alnum_ranges_8
      else if c < 3406 then alnum_ranges_9
      else if c < 3716 then alnum_ranges_10
      else if c < 4096 then alnum_ranges_11
      else if c < 4688 then alnum_ranges_12
      else if c < 5024 then alnum_ranges_13
      else if c < 6128 then alnum_ranges_14
      else if c < 6800 then alnum_ranges_15
      else if c < 7418 then alnum_ranges_16
      else if c < 8144 then alnum_ranges_17
      else if c < 8488 then alnum_ranges_18
      else if c < 11565 then alnum_ranges_19
      else if c < 12344 then alnum_ranges_20
      else if c < 19968 then alnum_ranges_21
      else if c < 43020 then alnum_ranges_22
      else if c < 43584 then alnum_ranges_23
      else if c < 43793 then alnum_ranges_24
      else if c < 64298 then alnum_ranges_25
      else if c < 65474 then alnum_ranges_26
      else if c < 66273 then alnum_ranges_27
      else if c < 66956 then alnum_ranges_28
      else if c < 67644 then alnum_ranges_29
      else if c < 68192 then alnum_ranges_30
      else if c < 69248 then alnum_ranges_31
      else if c < 69942 then alnum_ranges_32
      else if c < 70303 then alnum_ranges_33
      else if c < 70784 then alnum_ranges_34
      else if c < 71840 then alnum_ranges_35
      else if c < 72272 then alnum_ranges_36
      else if c < 73066 then alnum_ranges_37
      else if c < 92864 then alnum_ranges_38
      else if c < 101632 then alnum_ranges_39
      else if c < 119966 then alnum_ranges_40
      else if c < 120146 then alnum_ranges_41
      else if c < 123200 then alnum_ranges_42
      else if c < 126129 then alnum_ranges_43
      else if c < 126541 then alnum_ranges_44
      else if c < 126603 then alnum_ranges_45
      else alnum_ranges_46)"

definition digit_ranges_1 :: "(codepoint \<times> codepoint) list" where
  "digit_ranges_1 =
    [(48, 57), (178, 179), (185, 185), (1632, 1641), (1776, 1785), (1984, 1993),
     (2406, 2415), (2534, 2543), (2662, 2671), (2790, 2799), (2918, 2927), (3046, 3055),
     (3174, 3183), (3302, 3311), (3430, 3439), (3558, 3567)]"

definition digit_ranges_2 :: "(codepoint \<times> codepoint) list" where
  "digit_ranges_2 =
    [(3664, 3673), (3792, 3801), (3872, 3881), (4160, 4169), (4240, 4249), (4969, 4977),
     (6112, 6121), (6160, 6169), (6470, 6479), (6608, 6618), (6784, 6793), (6800, 6809),
     (6992, 7001), (7088, 7097), (7232, 7241), (7248, 7257)]"

definition digit_ranges_3 :: "(codepoint \<times> codepoint) list" where
  "digit_ranges_3 =
    [(8304, 8304), (8308, 8313), (8320, 8329), (9312, 9320), (9332, 9340), (9352, 9360),
     (9450, 9450), (9461, 9469), (9471, 9471), (10102, 10110), (10112, 10120), (10122, 10130),
     (42528, 42537), (43216, 43225), (43264, 43273), (43472, 43481)]"

definition digit_ranges_4 :: "(codepoint \<times> codepoint) list" where
  "digit_ranges_4 =
    [(43504, 43513), (43600, 43609), (44016, 44025), (65296, 65305), (66720, 66729), (68160, 68163),
     (68912, 68921), (69216, 69224), (69714, 69722), (69734, 69743), (69872, 69881), (69942, 69951),
     (70096, 70105), (70384, 70393), (70736, 70745), (70864, 70873)]"

definition digit_ranges_5 :: "(codepoint \<times> codepoint) list" where
  "digit_ranges_5 =
    [(71248, 71257), (71360, 71369), (71472, 71481), (71904, 71913), (72016, 72025), (72784, 72793),
     (73040, 73049), (73120, 73129), (92768, 92777), (92864, 92873), (93008, 93017), (120782, 120831),
     (123200, 123209), (123632, 123641), (125264, 125273), (127232, 127242)]"

definition digit_ranges_6 :: "(codepoint \<times> codepoint) list" where
  "digit_ranges_6 =
    [(130032, 130041)]"

definition digit_ranges_block :: "codepoint \<Rightarrow> (codepoint \<times> codepoint) list" where
  "digit_ranges_block c =
     (if c < 3664 then digit_ranges_1
      else if c < 8304 then digit_ranges_2
      else if c < 43504 then digit_ranges_3
      else if c < 71248 then digit_ranges_4
      else if c < 130032 then digit_ranges_5
      else digit_ranges_6)"

definition cased_ranges_1 :: "(codepoint \<times> codepoint) list" where
  "cased_ranges_1 =
    [(65, 90), (97, 122), (170, 170), (181, 181), (186, 186), (192, 214),
     (216, 246), (248, 442), (444, 447), (452, 659), (661, 696), (704, 705),
     (736, 740), (837, 837), (880, 883), (886, 887)]"

definition cased_ranges_2 :: "(codepoint \<times> codepoint) list" where
  "cased_ranges_2 =
    [(890, 893), (895, 895), (902, 902), (904, 906), (908, 908), (910, 929),
     (931, 1013), (1015, 1153), (1162, 1327), (1329, 1366), (1376, 1416), (4256, 4293),
     (4295, 4295), (4301, 4301), (4304, 4346), (4349, 4351)]"

definition cased_ranges_3 :: "(codepoint \<times> codepoint) list" where
  "cased_ranges_3 =
    [(5024, 5109), (5112, 5117), (7296, 7304), (7312, 7354), (7357, 7359), (7424, 7615),
     (7680, 7957), (7960, 7965), (7968, 8005), (8008, 8013), (8016, 8023), (8025, 8025),
     (8027, 8027), (8029, 8029), (8031, 8061), (8064, 8116)]"

definition cased_ranges_4 :: "(codepoint \<times> codepoint) list" where
  "cased_ranges_4 =
    [(8118, 8124), (8126, 8126), (8130, 8132), (8134, 8140), (8144, 8147), (8150, 8155),
     (8160, 8172), (8178, 8180), (8182, 8188), (8305, 8305), (8319, 8319), (8336, 8348),
     (8450, 8450), (8455, 8455), (8458, 8467), (8469, 8469)]"

definition cased_ranges_5 :: "(codepoint \<times> codepoint) list" where
  "cased_ranges_5 =
    [(8473, 8477), (8484, 8484), (8486, 8486), (8488, 8488), (8490, 8493), (8495, 8500),
     (8505, 8505), (8508, 8511), (8517, 8521), (8526, 8526), (8544, 8575), (8579, 8580),
     (9398, 9449), (11264, 11492), (11499, 11502), (11506, 11507)]"

definition cased_ranges_6 :: "(codepoint \<times> codepoint) list" where
  "cased_ranges_6 =
    [(11520, 11557), (11559, 11559), (11565, 11565), (42560, 42605), (42624, 42653), (42786, 42887),
     (42891, 42894), (42896, 42954), (42960, 42961), (42963, 42963), (42965, 42969), (42997, 42998),
     (43000, 43002), (43824, 43866), (43868, 43880), (43888, 43967)]"

definition cased_ranges_7 :: "(codepoint \<times> codepoint) list" where
  "cased_ranges_7 =
    [(64256, 64262), (64275, 64279), (65313, 65338), (65345, 65370), (66560, 66639), (66736, 66771),
     (66776, 66811), (66928, 66938), (66940, 66954), (66956, 66962), (66964, 66965), (66967, 66977),
     (66979, 66993), (66995, 67001), (67003, 67004), (67456, 67456)]"

definition cased_ranges_8 :: "(codepoint \<times> codepoint) list" where
  "cased_ranges_8 =
    [(67459, 67461), (67463, 67504), (67506, 67514), (68736, 68786), (68800, 68850), (71840, 71903),
     (93760, 93823), (119808, 119892), (119894, 119964), (119966, 119967), (119970, 119970), (119973, 119974),
     (119977, 119980), (119982, 119993), (119995, 119995), (119997, 120003)]"

definition cased_ranges_9 :: "(codepoint \<times> codepoint) list" where
  "cased_ranges_9 =
    [(120005, 120069), (120071, 120074), (120077, 120084), (120086, 120092), (120094, 120121), (120123, 120126),
     (120128, 120132), (120134, 120134), (120138, 120144), (120146, 120485), (120488, 120512), (120514, 120538),
     (120540, 120570), (120572, 120596), (120598, 120628), (120630, 120654)]"

definition cased_ranges_10 :: "(codepoint \<times> codepoint) list" where
  "cased_ranges_10 =
    [(120656, 120686), (120688, 120712), (120714, 120744), (120746, 120770), (120772, 120779), (122624, 122633),
     (122635, 122654), (125184, 125251), (127280, 127305), (127312, 127337), (127344, 127369)]"

definition cased_ranges_block :: "codepoint \<Rightarrow> (codepoint \<times> codepoint) list" where
  "cased_ranges_block c =
     (if c < 890 then cased_ranges_1
      else if c < 5024 then cased_ranges_2
      else if c < 8118 then cased_ranges_3
      else if c < 8473 then cased_ranges_4
      else if c < 11520 then cased_ranges_5
      else if c < 64256 then cased_ranges_6
      else if c < 67459 then cased_ranges_7
      else if c < 120005 then cased_ranges_8
      else if c < 120656 then cased_ranges_9
      else cased_ranges_10)"

definition case_ignorable_ranges_1 :: "(codepoint \<times> codepoint) list" where
  "case_ignorable_ranges_1 =
    [(39, 39), (46, 46), (58, 58), (94, 94), (96, 96), (168, 168),
     (173, 173), (175, 175), (180, 180), (183, 184), (688, 879), (884, 885),
     (890, 890), (900, 901), (903, 903), (1155, 1161)]"

definition case_ignorable_ranges_2 :: "(codepoint \<times> codepoint) list" where
  "case_ignorable_ranges_2 =
    [(1369, 1369), (1375, 1375), (1425, 1469), (1471, 1471), (1473, 1474), (1476, 1477),
     (1479, 1479), (1524, 1524), (1536, 1541), (1552, 1562), (1564, 1564), (1600, 1600),
     (1611, 1631), (1648, 1648), (1750, 1757), (1759, 1768)]"

definition case_ignorable_ranges_3 :: "(codepoint \<times> codepoint) list" where
  "case_ignorable_ranges_3 =
    [(1770, 1773), (1807, 1807), (1809, 1809), (1840, 1866), (1958, 1968), (2027, 2037),
     (2042, 2042), (2045, 2045), (2070, 2093), (2137, 2139), (2184, 2184), (2192, 2193),
     (2200, 2207), (2249, 2306), (2362, 2362), (2364, 2364)]"

definition case_ignorable_ranges_4 :: "(codepoint \<times> codepoint) list" where
  "case_ignorable_ranges_4 =
    [(2369, 2376), (2381, 2381), (2385, 2391), (2402, 2403), (2417, 2417), (2433, 2433),
     (2492, 2492), (2497, 2500), (2509, 2509), (2530, 2531), (2558, 2558), (2561, 2562),
     (2620, 2620), (2625, 2626), (2631, 2632), (2635, 2637)]"

definition case_ignorable_ranges_5 :: "(codepoint \<times> codepoint) list" where
  "case_ignorable_ranges_5 =
    [(2641, 2641), (2672, 2673), (2677, 2677), (2689, 2690), (2748, 2748), (2753, 2757),
     (2759, 2760), (2765, 2765), (2786, 2787), (2810, 2815), (2817, 2817), (2876, 2876),
     (2879, 2879), (2881, 2884), (2893, 2893), (2901, 2902)]"

definition case_ignorable_ranges_6 :: "(codepoint \<times> codepoint) list" where
  "case_ignorable_ranges_6 =
    [(2914, 2915), (2946, 2946), (3008, 3008), (3021, 3021), (3072, 3072), (3076, 3076),
     (3132, 3132), (3134, 3136), (3142, 3144), (3146, 3149), (3157, 3158), (3170, 3171),
     (3201, 3201), (3260, 3260), (3263, 3263), (3270, 3270)]"

definition case_ignorable_ranges_7 :: "(codepoint \<times> codepoint) list" where
  "case_ignorable_ranges_7 =
    [(3276, 3277), (3298, 3299), (3328, 3329), (3387, 3388), (3393, 3396), (3405, 3405),
     (3426, 3427), (3457, 3457), (3530, 3530), (3538, 3540), (3542, 3542), (3633, 3633),
     (3636, 3642), (3654, 3662), (3761, 3761), (3764, 3772)]"

definition case_ignorable_ranges_8 :: "(codepoint \<times> codepoint) list" where
  "case_ignorable_ranges_8 =
    [(3782, 3782), (3784, 3789), (3864, 3865), (3893, 3893), (3895, 3895), (3897, 3897),
     (3953, 3966), (3968, 3972), (3974, 3975), (3981, 3991), (3993, 4028), (4038, 4038),
     (4141, 4144), (4146, 4151), (4153, 4154), (4157, 4158)]"

definition case_ignorable_ranges_9 :: "(codepoint \<times> codepoint) list" where
  "case_ignorable_ranges_9 =
    [(4184, 4185), (4190, 4192), (4209, 4212), (4226, 4226), (4229, 4230), (4237, 4237),
     (4253, 4253), (4348, 4348), (4957, 4959), (5906, 5908), (5938, 5939), (5970, 5971),
     (6002, 6003), (6068, 6069), (6071, 6077), (6086, 6086)]"

definition case_ignorable_ranges_10 :: "(codepoint \<times> codepoint) list" where
  "case_ignorable_ranges_10 =
    [(6089, 6099), (6103, 6103), (6109, 6109), (6155, 6159), (6211, 6211), (6277, 6278),
     (6313, 6313), (6432, 6434), (6439, 6440), (6450, 6450), (6457, 6459), (6679, 6680),
     (6683, 6683), (6742, 6742), (6744, 6750), (6752, 6752)]"

definition case_ignorable_ranges_11 :: "(codepoint \<times> codepoint) list" where
  "case_ignorable_ranges_11 =
    [(6754, 6754), (6757, 6764), (6771, 6780), (6783, 6783), (6823, 6823), (6832, 6862),
     (6912, 6915), (6964, 6964), (6966, 6970), (6972, 6972), (6978, 6978), (7019, 7027),
     (7040, 7041), (7074, 7077), (7080, 7081), (7083, 7085)]"

definition case_ignorable_ranges_12 :: "(codepoint \<times> codepoint) list" where
  "case_ignorable_ranges_12 =
    [(7142, 7142), (7144, 7145), (7149, 7149), (7151, 7153), (7212, 7219), (7222, 7223),
     (7288, 7293), (7376, 7378), (7380, 7392), (7394, 7400), (7405, 7405), (7412, 7412),
     (7416, 7417), (7468, 7530), (7544, 7544), (7579, 7679)]"

definition case_ignorable_ranges_13 :: "(codepoint \<times> codepoint) list" where
  "case_ignorable_ranges_13 =
    [(8125, 8125), (8127, 8129), (8141, 8143), (8157, 8159), (8173, 8175), (8189, 8190),
     (8203, 8207), (8216, 8217), (8228, 8228), (8231, 8231), (8234, 8238), (8288, 8292),
     (8294, 8303), (8305, 8305), (8319, 8319), (8336, 8348)]"

definition case_ignorable_ranges_14 :: "(codepoint \<times> codepoint) list" where
  "case_ignorable_ranges_14 =
    [(8400, 8432), (11388, 11389), (11503, 11505), (11631, 11631), (11647, 11647), (11744, 11775),
     (11823, 11823), (12293, 12293), (12330, 12333), (12337, 12341), (12347, 12347), (12441, 12446),
     (12540, 12542), (40981, 40981), (42232, 42237), (42508, 42508)]"

definition case_ignorable_ranges_15 :: "(codepoint \<times> codepoint) list" where
  "case_ignorable_ranges_15 =
    [(42607, 42610), (42612, 42621), (42623, 42623), (42652, 42655), (42736, 42737), (42752, 42785),
     (42864, 42864), (42888, 42890), (42994, 42996), (43000, 43001), (43010, 43010), (43014, 43014),
     (43019, 43019), (43045, 43046), (43052, 43052), (43204, 43205)]"

definition case_ignorable_ranges_16 :: "(codepoint \<times> codepoint) list" where
  "case_ignorable_ranges_16 =
    [(43232, 43249), (43263, 43263), (43302, 43309), (43335, 43345), (43392, 43394), (43443, 43443),
     (43446, 43449), (43452, 43453), (43471, 43471), (43493, 43494), (43561, 43566), (43569, 43570),
     (43573, 43574), (43587, 43587), (43596, 43596), (43632, 43632)]"

definition case_ignorable_ranges_17 :: "(codepoint \<times> codepoint) list" where
  "case_ignorable_ranges_17 =
    [(43644, 43644), (43696, 43696), (43698, 43700), (43703, 43704), (43710, 43711), (43713, 43713),
     (43741, 43741), (43756, 43757), (43763, 43764), (43766, 43766), (43867, 43871), (43881, 43883),
     (44005, 44005), (44008, 44008), (44013, 44013), (64286, 64286)]"

definition case_ignorable_ranges_18 :: "(codepoint \<times> codepoint) list" where
  "case_ignorable_ranges_18 =
    [(64434, 64450), (65024, 65039), (65043, 65043), (65056, 65071), (65106, 65106), (65109, 65109),
     (65279, 65279), (65287, 65287), (65294, 65294), (65306, 65306), (65342, 65342), (65344, 65344),
     (65392, 65392), (65438, 65439), (65507, 65507), (65529, 65531)]"

definition case_ignorable_ranges_19 :: "(codepoint \<times> codepoint) list" where
  "case_ignorable_ranges_19 =
    [(66045, 66045), (66272, 66272), (66422, 66426), (67456, 67461), (67463, 67504), (67506, 67514),
     (68097, 68099), (68101, 68102), (68108, 68111), (68152, 68154), (68159, 68159), (68325, 68326),
     (68900, 68903), (69291, 69292), (69446, 69456), (69506, 69509)]"

definition case_ignorable_ranges_20 :: "(codepoint \<times> codepoint) list" where
  "case_ignorable_ranges_20 =
    [(69633, 69633), (69688, 69702), (69744, 69744), (69747, 69748), (69759, 69761), (69811, 69814),
     (69817, 69818), (69821, 69821), (69826, 69826), (69837, 69837), (69888, 69890), (69927, 69931),
     (69933, 69940), (70003, 70003), (70016, 70017), (70070, 70078)]"

definition case_ignorable_ranges_21 :: "(codepoint \<times> codepoint) list" where
  "case_ignorable_ranges_21 =
    [(70089, 70092), (70095, 70095), (70191, 70193), (70196, 70196), (70198, 70199), (70206, 70206),
     (70367, 70367), (70371, 70378), (70400, 70401), (70459, 70460), (70464, 70464), (70502, 70508),
     (70512, 70516), (70712, 70719), (70722, 70724), (70726, 70726)]"

definition case_ignorable_ranges_22 :: "(codepoint \<times> codepoint) list" where
  "case_ignorable_ranges_22 =
    [(70750, 70750), (70835, 70840), (70842, 70842), (70847, 70848), (70850, 70851), (71090, 71093),
     (71100, 71101), (71103, 71104), (71132, 71133), (71219, 71226), (71229, 71229), (71231, 71232),
     (71339, 71339), (71341, 71341), (71344, 71349), (71351, 71351)]"

definition case_ignorable_ranges_23 :: "(codepoint \<times> codepoint) list" where
  "case_ignorable_ranges_23 =
    [(71453, 71455), (71458, 71461), (71463, 71467), (71727, 71735), (71737, 71738), (71995, 71996),
     (71998, 71998), (72003, 72003), (72148, 72151), (72154, 72155), (72160, 72160), (72193, 72202),
     (72243, 72248), (72251, 72254), (72263, 72263), (72273, 72278)]"

definition case_ignorable_ranges_24 :: "(codepoint \<times> codepoint) list" where
  "case_ignorable_ranges_24 =
    [(72281, 72283), (72330, 72342), (72344, 72345), (72752, 72758), (72760, 72765), (72767, 72767),
     (72850, 72871), (72874, 72880), (72882, 72883), (72885, 72886), (73009, 73014), (73018, 73018),
     (73020, 73021), (73023, 73029), (73031, 73031), (73104, 73105)]"

definition case_ignorable_ranges_25 :: "(codepoint \<times> codepoint) list" where
  "case_ignorable_ranges_25 =
    [(73109, 73109), (73111, 73111), (73459, 73460), (78896, 78904), (92912, 92916), (92976, 92982),
     (92992, 92995), (94031, 94031), (94095, 94111), (94176, 94177), (94179, 94180), (110576, 110579),
     (110581, 110587), (110589, 110590), (113821, 113822), (113824, 113827)]"

definition case_ignorable_ranges_26 :: "(codepoint \<times> codepoint) list" where
  "case_ignorable_ranges_26 =
    [(118528, 118573), (118576, 118598), (119143, 119145), (119155, 119170), (119173, 119179), (119210, 119213),
     (119362, 119364), (121344, 121398), (121403, 121452), (121461, 121461), (121476, 121476), (121499, 121503),
     (121505, 121519), (122880, 122886), (122888, 122904), (122907, 122913)]"

definition case_ignorable_ranges_27 :: "(codepoint \<times> codepoint) list" where
  "case_ignorable_ranges_27 =
    [(122915, 122916), (122918, 122922), (123184, 123197), (123566, 123566), (123628, 123631), (125136, 125142),
     (125252, 125259), (127995, 127999), (917505, 917505), (917536, 917631), (917760, 917999)]"

definition case_ignorable_ranges_block :: "codepoint \<Rightarrow> (codepoint \<times> codepoint) list" where
  "case_ignorable_ranges_block c =
     (if c < 1369 then case_ignorable_ranges_1
      else if c < 1770 then case_ignorable_ranges_2
      else if c < 2369 then case_ignorable_ranges_3
      else if c < 2641 then case_ignorable_ranges_4
      else if c < 2914 then case_ignorable_ranges_5
      else if c < 3276 then case_ignorable_ranges_6
      else if c < 3782 then case_ignorable_ranges_7
      else if c < 4184 then case_ignorable_ranges_8
      else if c < 6089 then case_ignorable_ranges_9
      else if c < 6754 then case_ignorable_ranges_10
      else if c < 7142 then case_ignorable_ranges_11
      else if c < 8125 then case_ignorable_ranges_12
      else if c < 8400 then case_ignorable_ranges_13
      else if c < 42607 then case_ignorable_ranges_14
      else if c < 43232 then case_ignorable_ranges_15
      else if c < 43644 then case_ignorable_ranges_16
      else if c < 64434 then case_ignorable_ranges_17
      else if c < 66045 then case_ignorable_ranges_18
      else if c < 69633 then case_ignorable_ranges_19
      else if c < 70089 then case_ignorable_ranges_20
      else if c < 70750 then case_ignorable_ranges_21
      else if c < 71453 then case_ignorable_ranges_22
      else if c < 72281 then case_ignorable_ranges_23
      else if c < 73109 then case_ignorable_ranges_24
      else if c < 118528 then case_ignorable_ranges_25
      else if c < 122915 then case_ignorable_ranges_26
      else case_ignorable_ranges_27)"

definition lower_rows_1 :: "(codepoint \<times> codepoint \<times> nat \<times> codepoint) list" where
  "lower_rows_1 =
    [(65, 90, 1, 97), (192, 214, 1, 224), (216, 222, 1, 248), (256, 302, 2, 257),
     (306, 310, 2, 307), (313, 327, 2, 314), (330, 374, 2, 331), (376, 376, 1, 255),
     (377, 381, 2, 378), (385, 385, 1, 595), (386, 388, 2, 387), (390, 390, 1, 596),
     (391, 391, 1, 392), (393, 394, 1, 598), (395, 395, 1, 396), (398, 398, 1, 477)]"

definition lower_rows_2 :: "(codepoint \<times> codepoint \<times> nat \<times> codepoint) list" where
  "lower_rows_2 =
    [(399, 399, 1, 601), (400, 400, 1, 603), (401, 401, 1, 402), (403, 403, 1, 608),
     (404, 404, 1, 611), (406, 406, 1, 617), (407, 407, 1, 616), (408, 408, 1, 409),
     (412, 412, 1, 623), (413, 413, 1, 626), (415, 415, 1, 629), (416, 420, 2, 417),
     (422, 422, 1, 640), (423, 423, 1, 424), (425, 425, 1, 643), (428, 428, 1, 429)]"

definition lower_rows_3 :: "(codepoint \<times> codepoint \<times> nat \<times> codepoint) list" where
  "lower_rows_3 =
    [(430, 430, 1, 648), (431, 431, 1, 432), (433, 434, 1, 650), (435, 437, 2, 436),
     (439, 439, 1, 658), (440, 440, 1, 441), (444, 444, 1, 445), (452, 452, 1, 454),
     (453, 453, 1, 454), (455, 455, 1, 457), (456, 456, 1, 457), (458, 458, 1, 460),
     (459, 475, 2, 460), (478, 494, 2, 479), (497, 497, 1, 499), (498, 500, 2, 499)]"

definition lower_rows_4 :: "(codepoint \<times> codepoint \<times> nat \<times> codepoint) list" where
  "lower_rows_4 =
    [(502, 502, 1, 405), (503, 503, 1, 447), (504, 542, 2, 505), (544, 544, 1, 414),
     (546, 562, 2, 547), (570, 570, 1, 11365), (571, 571, 1, 572), (573, 573, 1, 410),
     (574, 574, 1, 11366), (577, 577, 1, 578), (579, 579, 1, 384), (580, 580, 1, 649),
     (581, 581, 1, 652), (582, 590, 2, 583), (880, 882, 2, 881), (886, 886, 1, 887)]"

definition lower_rows_5 :: "(codepoint \<times> codepoint \<times> nat \<times> codepoint) list" where
  "lower_rows_5 =
    [(895, 895, 1, 1011), (902, 902, 1, 940), (904, 906, 1, 941), (908, 908, 1, 972),
     (910, 911, 1, 973), (913, 929, 1, 945), (931, 939, 1, 963), (975, 975, 1, 983),
     (984, 1006, 2, 985), (1012, 1012, 1, 952), (1015, 1015, 1, 1016), (1017, 1017, 1, 1010),
     (1018, 1018, 1, 1019), (1021, 1023, 1, 891), (1024, 1039, 1, 1104), (1040, 1071, 1, 1072)]"

definition lower_rows_6 :: "(codepoint \<times> codepoint \<times> nat \<times> codepoint) list" where
  "lower_rows_6 =
    [(1120, 1152, 2, 1121), (1162, 1214, 2, 1163), (1216, 1216, 1, 1231), (1217, 1229, 2, 1218),
     (1232, 1326, 2, 1233), (1329, 1366, 1, 1377), (4256, 4293, 1, 11520), (4295, 4295, 1, 11559),
     (4301, 4301, 1, 11565), (5024, 5103, 1, 43888), (5104, 5109, 1, 5112), (7312, 7354, 1, 4304),
     (7357, 7359, 1, 4349), (7680, 7828, 2, 7681), (7838, 7838, 1, 223), (7840, 7934, 2, 7841)]"

definition lower_rows_7 :: "(codepoint \<times> codepoint \<times> nat \<times> codepoint) list" where
  "lower_rows_7 =
    [(7944, 7951, 1, 7936), (7960, 7965, 1, 7952), (7976, 7983, 1, 7968), (7992, 7999, 1, 7984),
     (8008, 8013, 1, 8000), (8025, 8031, 2, 8017), (8040, 8047, 1, 8032), (8072, 8079, 1, 8064),
     (8088, 8095, 1, 8080), (8104, 8111, 1, 8096), (8120, 8121, 1, 8112), (8122, 8123, 1, 8048),
     (8124, 8124, 1, 8115), (8136, 8139, 1, 8050), (8140, 8140, 1, 8131), (8152, 8153, 1, 8144)]"

definition lower_rows_8 :: "(codepoint \<times> codepoint \<times> nat \<times> codepoint) list" where
  "lower_rows_8 =
    [(8154, 8155, 1, 8054), (8168, 8169, 1, 8160), (8170, 8171, 1, 8058), (8172, 8172, 1, 8165),
     (8184, 8185, 1, 8056), (8186, 8187, 1, 8060), (8188, 8188, 1, 8179), (8486, 8486, 1, 969),
     (8490, 8490, 1, 107), (8491, 8491, 1, 229), (8498, 8498, 1, 8526), (8544, 8559, 1, 8560),
     (8579, 8579, 1, 8580), (9398, 9423, 1, 9424), (11264, 11311, 1, 11312), (11360, 11360, 1, 11361)]"

definition lower_rows_9 :: "(codepoint \<times> codepoint \<times> nat \<times> codepoint) list" where
  "lower_rows_9 =
    [(11362, 11362, 1, 619), (11363, 11363, 1, 7549), (11364, 11364, 1, 637), (11367, 11371, 2, 11368),
     (11373, 11373, 1, 593), (11374, 11374, 1, 625), (11375, 11375, 1, 592), (11376, 11376, 1, 594),
     (11378, 11378, 1, 11379), (11381, 11381, 1, 11382), (11390, 11391, 1, 575), (11392, 11490, 2, 11393),
     (11499, 11501, 2, 11500), (11506, 11506, 1, 11507), (42560, 42604, 2, 42561), (42624, 42650, 2, 42625)]"

definition lower_rows_10 :: "(codepoint \<times> codepoint \<times> nat \<times> codepoint) list" where
  "lower_rows_10 =
    [(42786, 42798, 2, 42787), (42802, 42862, 2, 42803), (42873, 42875, 2, 42874), (42877, 42877, 1, 7545),
     (42878, 42886, 2, 42879), (42891, 42891, 1, 42892), (42893, 42893, 1, 613), (42896, 42898, 2, 42897),
     (42902, 42920, 2, 42903), (42922, 42922, 1, 614), (42923, 42923, 1, 604), (42924, 42924, 1, 609),
     (42925, 42925, 1, 620), (42926, 42926, 1, 618), (42928, 42928, 1, 670), (42929, 42929, 1, 647)]"

definition lower_rows_11 :: "(codepoint \<times> codepoint \<times> nat \<times> codepoint) list" where
  "lower_rows_11 =
    [(42930, 42930, 1, 669), (42931, 42931, 1, 43859), (42932, 42946, 2, 42933), (42948, 42948, 1, 42900),
     (42949, 42949, 1, 642), (42950, 42950, 1, 7566), (42951, 42953, 2, 42952), (42960, 42960, 1, 42961),
     (42966, 42968, 2, 42967), (42997, 42997, 1, 42998), (65313, 65338, 1, 65345), (66560, 66599, 1, 66600),
     (66736, 66771, 1, 66776), (66928, 66938, 1, 66967), (66940, 66954, 1, 66979), (66956, 66962, 1, 66995)]"

definition lower_rows_12 :: "(codepoint \<times> codepoint \<times> nat \<times> codepoint) list" where
  "lower_rows_12 =
    [(66964, 66965, 1, 67003), (68736, 68786, 1, 68800), (71840, 71871, 1, 71872), (93760, 93791, 1, 93792),
     (125184, 125217, 1, 125218)]"

definition lower_rows_block :: "codepoint \<Rightarrow> (codepoint \<times> codepoint \<times> nat \<times> codepoint) list" where
  "lower_rows_block c =
     (if c < 399 then lower_rows_1
      else if c < 430 then lower_rows_2
      else if c < 502 then lower_rows_3
      else if c < 895 then lower_rows_4
      else if c < 1120 then lower_rows_5
      else if c < 7944 then lower_rows_6
      else if c < 8154 then lower_rows_7
      else if c < 11362 then lower_rows_8
      else if c < 42786 then lower_rows_9
      else if c < 42930 then lower_rows_10
      else if c < 66964 then lower_rows_11
      else lower_rows_12)"

definition upper_rows_1 :: "(codepoint \<times> codepoint \<times> nat \<times> codepoint) list" where
  "upper_rows_1 =
    [(97, 122, 1, 65), (181, 181, 1, 924), (224, 246, 1, 192), (248, 254, 1, 216),
     (255, 255, 1, 376), (257, 303, 2, 256), (305, 305, 1, 73), (307, 311, 2, 306),
     (314, 328, 2, 313), (331, 375, 2, 330), (378, 382, 2, 377), (383, 383, 1, 83),
     (384, 384, 1, 579), (387, 389, 2, 386), (392, 392, 1, 391), (396, 396, 1, 395)]"

definition upper_rows_2 :: "(codepoint \<times> codepoint \<times> nat \<times> codepoint) list" where
  "upper_rows_2 =
    [(402, 402, 1, 401), (405, 405, 1, 502), (409, 409, 1, 408), (410, 410, 1, 573),
     (414, 414, 1, 544), (417, 421, 2, 416), (424, 424, 1, 423), (429, 429, 1, 428),
     (432, 432, 1, 431), (436, 438, 2, 435), (441, 441, 1, 440), (445, 445, 1, 444),
     (447, 447, 1, 503), (453, 453, 1, 452), (454, 454, 1, 452), (456, 456, 1, 455)]"

definition upper_rows_3 :: "(codepoint \<times> codepoint \<times> nat \<times> codepoint) list" where
  "upper_rows_3 =
    [(457, 457, 1, 455), (459, 459, 1, 458), (460, 460, 1, 458), (462, 476, 2, 461),
     (477, 477, 1, 398), (479, 495, 2, 478), (498, 498, 1, 497), (499, 499, 1, 497),
     (501, 501, 1, 500), (505, 543, 2, 504), (547, 563, 2, 546), (572, 572, 1, 571),
     (575, 576, 1, 11390), (578, 578, 1, 577), (583, 591, 2, 582), (592, 592, 1, 11375)]"

definition upper_rows_4 :: "(codepoint \<times> codepoint \<times> nat \<times> codepoint) list" where
  "upper_rows_4 =
    [(593, 593, 1, 11373), (594, 594, 1, 11376), (595, 595, 1, 385), (596, 596, 1, 390),
     (598, 599, 1, 393), (601, 601, 1, 399), (603, 603, 1, 400), (604, 604, 1, 42923),
     (608, 608, 1, 403), (609, 609, 1, 42924), (611, 611, 1, 404), (613, 613, 1, 42893),
     (614, 614, 1, 42922), (616, 616, 1, 407), (617, 617, 1, 406), (618, 618, 1, 42926)]"

definition upper_rows_5 :: "(codepoint \<times> codepoint \<times> nat \<times> codepoint) list" where
  "upper_rows_5 =
    [(619, 619, 1, 11362), (620, 620, 1, 42925), (623, 623, 1, 412), (625, 625, 1, 11374),
     (626, 626, 1, 413), (629, 629, 1, 415), (637, 637, 1, 11364), (640, 640, 1, 422),
     (642, 642, 1, 42949), (643, 643, 1, 425), (647, 647, 1, 42929), (648, 648, 1, 430),
     (649, 649, 1, 580), (650, 651, 1, 433), (652, 652, 1, 581), (658, 658, 1, 439)]"

definition upper_rows_6 :: "(codepoint \<times> codepoint \<times> nat \<times> codepoint) list" where
  "upper_rows_6 =
    [(669, 669, 1, 42930), (670, 670, 1, 42928), (837, 837, 1, 921), (881, 883, 2, 880),
     (887, 887, 1, 886), (891, 893, 1, 1021), (940, 940, 1, 902), (941, 943, 1, 904),
     (945, 961, 1, 913), (962, 962, 1, 931), (963, 971, 1, 931), (972, 972, 1, 908),
     (973, 974, 1, 910), (976, 976, 1, 914), (977, 977, 1, 920), (981, 981, 1, 934)]"

definition upper_rows_7 :: "(codepoint \<times> codepoint \<times> nat \<times> codepoint) list" where
  "upper_rows_7 =
    [(982, 982, 1, 928), (983, 983, 1, 975), (985, 1007, 2, 984), (1008, 1008, 1, 922),
     (1009, 1009, 1, 929), (1010, 1010, 1, 1017), (1011, 1011, 1, 895), (1013, 1013, 1, 917),
     (1016, 1016, 1, 1015), (1019, 1019, 1, 1018), (1072, 1103, 1, 1040), (1104, 1119, 1, 1024),
     (1121, 1153, 2, 1120), (1163, 1215, 2, 1162), (1218, 1230, 2, 1217), (1231, 1231, 1, 1216)]"

definition upper_rows_8 :: "(codepoint \<times> codepoint \<times> nat \<times> codepoint) list" where
  "upper_rows_8 =
    [(1233, 1327, 2, 1232), (1377, 1414, 1, 1329), (4304, 4346, 1, 7312), (4349, 4351, 1, 7357),
     (5112, 5117, 1, 5104), (7296, 7296, 1, 1042), (7297, 7297, 1, 1044), (7298, 7298, 1, 1054),
     (7299, 7300, 1, 1057), (7301, 7301, 1, 1058), (7302, 7302, 1, 1066), (7303, 7303, 1, 1122),
     (7304, 7304, 1, 42570), (7545, 7545, 1, 42877), (7549, 7549, 1, 11363), (7566, 7566, 1, 42950)]"

definition upper_rows_9 :: "(codepoint \<times> codepoint \<times> nat \<times> codepoint) list" where
  "upper_rows_9 =
    [(7681, 7829, 2, 7680), (7835, 7835, 1, 7776), (7841, 7935, 2, 7840), (7936, 7943, 1, 7944),
     (7952, 7957, 1, 7960), (7968, 7975, 1, 7976), (7984, 7991, 1, 7992), (8000, 8005, 1, 8008),
     (8017, 8023, 2, 8025), (8032, 8039, 1, 8040), (8048, 8049, 1, 8122), (8050, 8053, 1, 8136),
     (8054, 8055, 1, 8154), (8056, 8057, 1, 8184), (8058, 8059, 1, 8170), (8060, 8061, 1, 8186)]"

definition upper_rows_10 :: "(codepoint \<times> codepoint \<times> nat \<times> codepoint) list" where
  "upper_rows_10 =
    [(8112, 8113, 1, 8120), (8126, 8126, 1, 921), (8144, 8145, 1, 8152), (8160, 8161, 1, 8168),
     (8165, 8165, 1, 8172), (8526, 8526, 1, 8498), (8560, 8575, 1, 8544), (8580, 8580, 1, 8579),
     (9424, 9449, 1, 9398), (11312, 11359, 1, 11264), (11361, 11361, 1, 11360), (11365, 11365, 1, 570),
     (11366, 11366, 1, 574), (11368, 11372, 2, 11367), (11379, 11379, 1, 11378), (11382, 11382, 1, 11381)]"

definition upper_rows_11 :: "(codepoint \<times> codepoint \<times> nat \<times> codepoint) list" where
  "upper_rows_11 =
    [(11393, 11491, 2, 11392), (11500, 11502, 2, 11499), (11507, 11507, 1, 11506), (11520, 11557, 1, 4256),
     (11559, 11559, 1, 4295), (11565, 11565, 1, 4301), (42561, 42605, 2, 42560), (42625, 42651, 2, 42624),
     (42787, 42799, 2, 42786), (42803, 42863, 2, 42802), (42874, 42876, 2, 42873), (42879, 42887, 2, 42878),
     (42892, 42892, 1, 42891), (42897, 42899, 2, 42896), (42900, 42900, 1, 42948), (42903, 42921, 2, 42902)]"

definition upper_rows_12 :: "(codepoint \<times> codepoint \<times> nat \<times> codepoint) list" where
  "upper_rows_12 =
    [(42933, 42947, 2, 42932), (42952, 42954, 2, 42951), (42961, 42961, 1, 42960), (42967, 42969, 2, 42966),
     (42998, 42998, 1, 42997), (43859, 43859, 1, 42931), (43888, 43967, 1, 5024), (65345, 65370, 1, 65313),
     (66600, 66639, 1, 66560), (66776, 66811, 1, 66736), (66967, 66977, 1, 66928), (66979, 66993, 1, 66940),
     (66995, 67001, 1, 66956), (67003, 67004, 1, 66964), (68800, 68850, 1, 68736), (71872, 71903, 1, 71840)]"

definition upper_rows_13 :: "(codepoint \<times> codepoint \<times> nat \<times> codepoint) list" where
  "upper_rows_13 =
    [(93792, 93823, 1, 93760), (125218, 125251, 1, 125184)]"

definition upper_rows_block :: "codepoint \<Rightarrow> (codepoint \<times> codepoint \<times> nat \<times> codepoint) list" where
  "upper_rows_block c =
     (if c < 402 then upper_rows_1
      else if c < 457 then upper_rows_2
      else if c < 593 then upper_rows_3
      else if c < 619 then upper_rows_4
      else if c < 669 then upper_rows_5
      else if c < 982 then upper_rows_6
      else if c < 1233 then upper_rows_7
      else if c < 7681 then upper_rows_8
      else if c < 8112 then upper_rows_9
      else if c < 11393 then upper_rows_10
      else if c < 42933 then upper_rows_11
      else if c < 93792 then upper_rows_12
      else upper_rows_13)"

definition lower_special_1 :: "(codepoint \<times> pystr) list" where
  "lower_special_1 =
    [(304, [105, 775])]"

definition lower_special_block :: "codepoint \<Rightarrow> (codepoint \<times> pystr) list" where
  "lower_special_block c =
     (lower_special_1)"

definition upper_special_1 :: "(codepoint \<times> pystr) list" where
  "upper_special_1 =
    [(223, [83, 83]), (329, [700, 78]), (496, [74, 780]), (912, [921, 776, 769]),
     (944, [933, 776, 769]), (1415, [1333, 1362]), (7830, [72, 817]), (7831, [84, 776]),
     (7832, [87, 778]), (7833, [89, 778]), (7834, [65, 702]), (8016, [933, 787]),
     (8018, [933, 787, 768]), (8020, [933, 787, 769]), (8022, [933, 787, 834]), (8064, [7944, 921])]"

definition upper_special_2 :: "(codepoint \<times> pystr) list" where
  "upper_special_2 =
    [(8065, [7945, 921]), (8066, [7946, 921]), (8067, [7947, 921]), (8068, [7948, 921]),
     (8069, [7949, 921]), (8070, [7950, 921]), (8071, [7951, 921]), (8072, [7944, 921]),
     (8073, [7945, 921]), (8074, [7946, 921]), (8075, [7947, 921]), (8076, [7948, 921]),
     (8077, [7949, 921]), (8078, [7950, 921]), (8079, [7951, 921]), (8080, [7976, 921])]"

definition upper_special_3 :: "(codepoint \<times> pystr) list" where
  "upper_special_3 =
    [(8081, [7977, 921]), (8082, [7978, 921]), (8083, [7979, 921]), (8084, [7980, 921]),
     (8085, [7981, 921]), (8086, [7982, 921]), (8087, [7983, 921]), (8088, [7976, 921]),
     (8089, [7977, 921]), (8090, [7978, 921]), (8091, [7979, 921]), (8092, [7980, 921]),
     (8093, [7981, 921]), (8094, [7982, 921]), (8095, [7983, 921]), (8096, [8040, 921])]"

definition upper_special_4 :: "(codepoint \<times> pystr) list" where
  "upper_special_4 =
    [(8097, [8041, 921]), (8098, [8042, 921]), (8099, [8043, 921]), (8100, [8044, 921]),
     (8101, [8045, 921]), (8102, [8046, 921]), (8103, [8047, 921]), (8104, [8040, 921]),
     (8105, [8041, 921]), (8106, [8042, 921]), (8107, [8043, 921]), (8108, [8044, 921]),
     (8109, [8045, 921]), (8110, [8046, 921]), (8111, [8047, 921]), (8114, [8122, 921])]"

definition upper_special_5 :: "(codepoint \<times> pystr) list" where
  "upper_special_5 =
    [(8115, [913, 921]), (8116, [902, 921]), (8118, [913, 834]), (8119, [913, 834, 921]),
     (8124, [913, 921]), (8130, [8138, 921]), (8131, [919, 921]), (8132, [905, 921]),
     (8134, [919, 834]), (8135, [919, 834, 921]), (8140, [919, 921]), (8146, [921, 776, 768]),
     (8147, [921, 776, 769]), (8150, [921, 834]), (8151, [921, 776, 834]), (8162, [933, 776, 768])]"

definition upper_special_6 :: "(codepoint \<times> pystr) list" where
  "upper_special_6 =
    [(8163, [933, 776, 769]), (8164, [929, 787]), (8166, [933, 834]), (8167, [933, 776, 834]),
     (8178, [8186, 921]), (8179, [937, 921]), (8180, [911, 921]), (8182, [937, 834]),
     (8183, [937, 834, 921]), (8188, [937, 921]), (64256, [70, 70]), (64257, [70, 73]),
     (64258, [70, 76]), (64259, [70, 70, 73]), (64260, [70, 70, 76]), (64261, [83, 84])]"

definition upper_special_7 :: "(codepoint \<times> pystr) list" where
  "upper_special_7 =
    [(64262, [83, 84]), (64275, [1348, 1350]), (64276, [1348, 1333]), (64277, [1348, 1339]),
     (64278, [1358, 1350]), (64279, [1348, 1341])]"

definition upper_special_block :: "codepoint \<Rightarrow> (codepoint \<times> pystr) list" where
  "upper_special_block c =
     (if c < 8065 then upper_special_1
      else if c < 8081 then upper_special_2
      else if c < 8097 then upper_special_3
      else if c < 8115 then upper_special_4
      else if c < 8163 then upper_special_5
      else if c < 64262 then upper_special_6
      else upper_special_7)"

fun in_ranges :: "(codepoint \<times> codepoint) list \<Rightarrow> codepoint \<Rightarrow> bool" where
  "in_ranges [] c = False"
| "in_ranges ((lo, hi) # rs) c =
     (if c < lo then False else if c \<le> hi then True else in_ranges rs c)"

fun rows_lookup ::
  "(codepoint \<times> codepoint \<times> nat \<times> codepoint) list \<Rightarrow> codepoint \<Rightarrow> codepoint option" where
  "rows_lookup [] c = None"
| "rows_lookup ((lo, hi, stride, t) # rows) c =
     (if c < lo then None
      else if c \<le> hi \<and> (c - lo) mod stride = 0 then Some (t + (c - lo))
      else rows_lookup rows c)"

fun special_lookup :: "(codepoint \<times> pystr) list \<Rightarrow> codepoint \<Rightarrow> pystr option" where
  "special_lookup [] c = None"
| "special_lookup ((k, m) # rest) c =
     (if c < k then None else if c = k then Some m else special_lookup rest c)"

text \<open>
  On ASCII each function is written out; the tables say the same there. Beyond ASCII the
  tables decide.
\<close>

definition py_isdigit_char :: "codepoint \<Rightarrow> bool" where
  "py_isdigit_char c \<longleftrightarrow>
     (if c < 128 then 48 \<le> c \<and> c \<le> 57 else in_ranges (digit_ranges_block c) c)"

text \<open>\<open>str.isdigit\<close> is false on the empty string.\<close>

definition py_isdigit :: "pystr \<Rightarrow> bool" where
  "py_isdigit s \<longleftrightarrow> s \<noteq> [] \<and> list_all py_isdigit_char s"

definition py_isalnum_char :: "codepoint \<Rightarrow> bool" where
  "py_isalnum_char c \<longleftrightarrow>
     (if c < 128 then (48 \<le> c \<and> c \<le> 57) \<or> (65 \<le> c \<and> c \<le> 90) \<or> (97 \<le> c \<and> c \<le> 122)
      else in_ranges (alnum_ranges_block c) c)"

text \<open>The class \<open>\w\<close> of \<open>re\<close>: an alphanumeric or the underscore (code point 95).\<close>

definition re_word_char :: "codepoint \<Rightarrow> bool" where
  "re_word_char c \<longleftrightarrow> py_isalnum_char c \<or> c = 95"

definition py_cased :: "codepoint \<Rightarrow> bool" where
  "py_cased c \<longleftrightarrow>
     (if c < 128 then (65 \<le> c \<and> c \<le> 90) \<or> (97 \<le> c \<and> c \<le> 122)
      else in_ranges (cased_ranges_block c) c)"

definition py_case_ignorable :: "codepoint \<Rightarrow> bool" where
  "py_case_ignorable c \<longleftrightarrow> in_ranges (case_ignorable_ranges_block c) c"

definition py_lower_char :: "codepoint \<Rightarrow> pystr" where
  "py_lower_char c =
     (if c < 128 then [if 65 \<le> c \<and> c \<le> 90 then c + 32 else c]
      else case special_lookup (lower_special_block c) c of
             Some m \<Rightarrow> m
           | None \<Rightarrow>
               (case rows_lookup (lower_rows_block c) c of Some l \<Rightarrow> [l] | None \<Rightarrow> [c]))"

definition py_upper_char :: "codepoint \<Rightarrow> pystr" where
  "py_upper_char c =
     (if c < 128 then [if 97 \<le> c \<and> c \<le> 122 then c - 32 else c]
      else case special_lookup (upper_special_block c) c of
             Some m \<Rightarrow> m
           | None \<Rightarrow>
               (case rows_lookup (upper_rows_block c) c of Some u \<Rightarrow> [u] | None \<Rightarrow> [c]))"

text \<open>
  \<open>str.lower\<close> maps each character by itself, but for the capital sigma (code point
  931): it becomes the final sigma (962) when a cased character stands before it, with
  only case-ignorable characters between, and no cased character follows it in the same
  way; otherwise it becomes the small sigma (963). \<open>before\<close> is the text to the left,
  nearest character first.
\<close>

definition final_sigma :: "pystr \<Rightarrow> pystr \<Rightarrow> bool" where
  "final_sigma before rest \<longleftrightarrow>
     (case dropWhile py_case_ignorable before of
        [] \<Rightarrow> False
      | p # ps \<Rightarrow>
          py_cased p \<and>
          (case dropWhile py_case_ignorable rest of [] \<Rightarrow> True | n # ns \<Rightarrow> \<not> py_cased n))"

fun lower_from :: "pystr \<Rightarrow> pystr \<Rightarrow> pystr" where
  "lower_from before [] = []"
| "lower_from before (c # rest) =
     (if c = 931 then [if final_sigma before rest then 962 else 963] else py_lower_char c) @
     lower_from (c # before) rest"

definition py_lower :: "pystr \<Rightarrow> pystr" where
  "py_lower s = lower_from [] s"

definition py_upper :: "pystr \<Rightarrow> pystr" where
  "py_upper s = concat (map py_upper_char s)"

text \<open>The substring test \<open>sub in s\<close>.\<close>

fun py_in :: "pystr \<Rightarrow> pystr \<Rightarrow> bool" where
  "py_in sub [] = (sub = [])"
| "py_in sub (c # s) = (prefix sub (c # s) \<or> py_in sub s)"

section \<open>The digest \<open>hashlib.md5(...).hexdigest()\<close>\<close>

text \<open>
  UTF-8 and MD5 (RFC 1321) on bytes and 32-bit words, both as natural numbers with the
  wrap-around written out.
\<close>

type_synonym byte = nat
type_synonym word32 = nat

definition utf8_char :: "codepoint \<Rightarrow> byte list" where
  "utf8_char c =
     (if c < 0x80 then [c]
      else if c < 0x800 then [0xC0 + c div 64, 0x80 + c mod 64]
      else if c < 0x10000 then
        [0xE0 + c div 4096, 0x80 + c div 64 mod 64, 0x80 + c mod 64]
      else
        [0xF0 + c div 262144, 0x80 + c div 4096 mod 64,
         0x80 + c div 64 mod 64, 0x80 + c mod 64])"

definition encode_utf8 :: "pystr \<Rightarrow> byte list" where
  "encode_utf8 s = concat (map utf8_char s)"

definition add32 :: "word32 \<Rightarrow> word32 \<Rightarrow> word32" where
  "add32 x y = (x + y) mod 2 ^ 32"

definition not32 :: "word32 \<Rightarrow> word32" where
  "not32 x = x XOR 0xffffffff"

definition rotl32 :: "nat \<Rightarrow> word32 \<Rightarrow> word32" where
  "rotl32 s x = (x * 2 ^ s) mod 2 ^ 32 + x div 2 ^ (32 - s)"

definition md5_F :: "word32 \<Rightarrow> word32 \<Rightarrow> word32 \<Rightarrow> word32" where
  "md5_F b c d = (b AND c) OR (not32 b AND d)"

definition md5_G :: "word32 \<Rightarrow> word32 \<Rightarrow> word32 \<Rightarrow> word32" where
  "md5_G b c d = (d AND b) OR (not32 d AND c)"

definition md5_H :: "word32 \<Rightarrow> word32 \<Rightarrow> word32 \<Rightarrow> word32" where
  "md5_H b c d = b XOR c XOR d"

definition md5_I :: "word32 \<Rightarrow> word32 \<Rightarrow> word32 \<Rightarrow> word32" where
  "md5_I b c d = c XOR (b OR not32 d)"

text \<open>
  One table per round; an entry is the additive constant, the rotation and the index of
  the message word of one step.
\<close>

definition md5_table1 :: "(nat \<times> nat \<times> nat) list" where
  "md5_table1 =
    [(0xd76aa478, 7, 0), (0xe8c7b756, 12, 1), (0x242070db, 17, 2), (0xc1bdceee, 22, 3),
     (0xf57c0faf, 7, 4), (0x4787c62a, 12, 5), (0xa8304613, 17, 6), (0xfd469501, 22, 7),
     (0x698098d8, 7, 8), (0x8b44f7af, 12, 9), (0xffff5bb1, 17, 10), (0x895cd7be, 22, 11),
     (0x6b901122, 7, 12), (0xfd987193, 12, 13), (0xa679438e, 17, 14), (0x49b40821, 22, 15)]"

definition md5_table2 :: "(nat \<times> nat \<times> nat) list" where
  "md5_table2 =
    [(0xf61e2562, 5, 1), (0xc040b340, 9, 6), (0x265e5a51, 14, 11), (0xe9b6c7aa, 20, 0),
     (0xd62f105d, 5, 5), (0x02441453, 9, 10), (0xd8a1e681, 14, 15), (0xe7d3fbc8, 20, 4),
     (0x21e1cde6, 5, 9), (0xc33707d6, 9, 14), (0xf4d50d87, 14, 3), (0x455a14ed, 20, 8),
     (0xa9e3e905, 5, 13), (0xfcefa3f8, 9, 2), (0x676f02d9, 14, 7), (0x8d2a4c8a, 20, 12)]"

definition md5_table3 :: "(nat \<times> nat \<times> nat) list" where
  "md5_table3 =
    [(0xfffa3942, 4, 5), (0x8771f681, 11, 8), (0x6d9d6122, 16, 11), (0xfde5380c, 23, 14),
     (0xa4beea44, 4, 1), (0x4bdecfa9, 11, 4), (0xf6bb4b60, 16, 7), (0xbebfbc70, 23, 10),
     (0x289b7ec6, 4, 13), (0xeaa127fa, 11, 0), (0xd4ef3085, 16, 3), (0x04881d05, 23, 6),
     (0xd9d4d039, 4, 9), (0xe6db99e5, 11, 12), (0x1fa27cf8, 16, 15), (0xc4ac5665, 23, 2)]"

definition md5_table4 :: "(nat \<times> nat \<times> nat) list" where
  "md5_table4 =
    [(0xf4292244, 6, 0), (0x432aff97, 10, 7), (0xab9423a7, 15, 14), (0xfc93a039, 21, 5),
     (0x655b59c3, 6, 12), (0x8f0ccc92, 10, 3), (0xffeff47d, 15, 10), (0x85845dd1, 21, 1),
     (0x6fa87e4f, 6, 8), (0xfe2ce6e0, 10, 15), (0xa3014314, 15, 6), (0x4e0811a1, 21, 13),
     (0xf7537e82, 6, 4), (0xbd3af235, 10, 11), (0x2ad7d2bb, 15, 2), (0xeb86d391, 21, 9)]"

type_synonym md5_state = "word32 \<times> word32 \<times> word32 \<times> word32"

fun md5_round ::
  "(word32 \<Rightarrow> word32 \<Rightarrow> word32 \<Rightarrow> word32) \<Rightarrow> word32 list \<Rightarrow>
   (nat \<times> nat \<times> nat) list \<Rightarrow> md5_state \<Rightarrow> md5_state" where
  "md5_round f M [] st = st"
| "md5_round f M ((k, s, g) # tab) (a, b, c, d) =
     md5_round f M tab
       (d, add32 b (rotl32 s (add32 (add32 (add32 (f b c d) a) k) (M ! g))), b, c)"

fun le_word :: "byte list \<Rightarrow> word32" where
  "le_word [] = 0"
| "le_word (b # bs) = b + 256 * le_word bs"

fun chunks :: "nat \<Rightarrow> 'a list \<Rightarrow> 'a list list" where
  "chunks n [] = []"
| "chunks n (x # xs) = (if n = 0 then [] else take n (x # xs) # chunks n (drop n (x # xs)))"

definition word_bytes :: "word32 \<Rightarrow> byte list" where
  "word_bytes w = [w mod 256, w div 256 mod 256, w div 65536 mod 256, w div 16777216 mod 256]"

fun add_state :: "md5_state \<Rightarrow> md5_state \<Rightarrow> md5_state" where
  "add_state (a0, b0, c0, d0) (a, b, c, d) = (add32 a0 a, add32 b0 b, add32 c0 c, add32 d0 d)"

definition md5_compress :: "md5_state \<Rightarrow> word32 list \<Rightarrow> md5_state" where
  "md5_compress st M =
     add_state st
       (md5_round md5_I M md5_table4
         (md5_round md5_H M md5_table3
           (md5_round md5_G M md5_table2
             (md5_round md5_F M md5_table1 st))))"

definition md5_block :: "md5_state \<Rightarrow> byte list \<Rightarrow> md5_state" where
  "md5_block st blk = md5_compress st (map le_word (chunks 4 blk))"

fun state_bytes :: "md5_state \<Rightarrow> byte list" where
  "state_bytes (a, b, c, d) = word_bytes a @ word_bytes b @ word_bytes c @ word_bytes d"

text \<open>
  Padding: the byte 128, zeros up to 56 modulo 64, and the bit length in eight bytes,
  lowest first. The padded message is a whole number of 64-byte blocks, so every block
  has its sixteen words and \<open>M ! g\<close> is always in range.
\<close>

definition md5_pad :: "byte list \<Rightarrow> byte list" where
  "md5_pad m =
     m @ [0x80] @ replicate ((119 - length m mod 64) mod 64) 0 @
     map (\<lambda>k. 8 * length m div 256 ^ k mod 256) [0, 1, 2, 3, 4, 5, 6, 7]"

definition md5_digest :: "byte list \<Rightarrow> byte list" where
  "md5_digest m =
     state_bytes
       (foldl md5_block (0x67452301, 0xefcdab89, 0x98badcfe, 0x10325476) (chunks 64 (md5_pad m)))"

definition hex_digit :: "nat \<Rightarrow> codepoint" where
  "hex_digit n = (if n < 10 then 48 + n else 87 + n)"

definition hexdigest :: "byte list \<Rightarrow> pystr" where
  "hexdigest bs = concat (map (\<lambda>b. [hex_digit (b div 16), hex_digit (b mod 16)]) bs)"

definition md5_hex :: "byte list \<Rightarrow> pystr" where
  "md5_hex m = hexdigest (md5_digest m)"

section \<open>Configuration and records\<close>

record settings =
  request_timeout :: int
  max_retries :: int
  retry_delay :: int
  user_agent :: pystr
  respect_robots :: bool
  min_quote_length :: int
  max_quote_length :: int
  default_delay :: int

definition DEFAULT_CONFIG :: settings where
  "DEFAULT_CONFIG =
     \<lparr>request_timeout = 15, max_retries = 3, retry_delay = 2,
      user_agent = str_of ''UniversalQuoteParser/2.0 (+https://github.com/quote-parser)'',
      respect_robots = True, min_quote_length = 10, max_quote_length = 1000,
      default_delay = 1\<rparr>"

text \<open>
  The quote dictionary built by \<open>_create_quote_object\<close>. The time stamp is what
  \<open>datetime.now().isoformat()\<close> returns at the call; the model takes it as an argument.
\<close>

record quote_obj =
  quote :: pystr
  author :: pystr
  tags :: "pystr list"
  tags_count :: nat
  timestamp :: pystr

text \<open>
  The mutable fields of \<open>UniversalQuoteParser\<close>, with the dictionary \<open>stats\<close> flattened.
  Two logs stand for the effects on the outside: \<open>requests\<close> lists the URLs passed to
  \<open>session.get\<close>, oldest first, and \<open>slept\<close> the arguments of \<open>time.sleep\<close>.
\<close>

record parser =
  visited_urls :: "pystr set"
  all_quotes :: "quote_obj list"
  quote_hashes :: "pystr set"
  start_time :: "pystr option"
  total_pages :: nat
  total_quotes :: nat
  failed_requests :: nat
  requests :: "pystr list"
  slept :: "nat list"

section \<open>Fingerprints, validation and record creation\<close>

definition generate_quote_hash :: "pystr \<Rightarrow> pystr \<Rightarrow> pystr" where
  "generate_quote_hash quote_text author_text =
     md5_hex (encode_utf8
       (py_lower (py_strip quote_text) @ str_of ''|'' @ py_lower (py_strip author_text)))"

definition special_chars :: "pystr \<Rightarrow> nat" where
  "special_chars quote_text =
     length (filter (\<lambda>c. \<not> re_word_char c \<and> \<not> py_isspace c) quote_text)"

text \<open>
  The source compares \<open>special_chars > len(quote_text) * 0.3\<close> in binary floating point.
  The count is an integer. When \<open>3 * len\<close> is a multiple of 10 the double product is the
  exact integer (the relative error of the double nearest to 0.3 is below half a unit in
  the last place), and otherwise the product is at distance at least 0.1 from every
  integer, far more than the rounding error; so the comparison is the exact one,
  \<open>10 * special_chars > 3 * len\<close>.
\<close>

definition validate_quote_content :: "pystr \<Rightarrow> bool" where
  "validate_quote_content quote_text =
     (if py_isdigit quote_text then False
      else if 10 * special_chars quote_text > 3 * length quote_text then False
      else True)"

definition make_quote :: "pystr \<Rightarrow> pystr \<Rightarrow> pystr list \<Rightarrow> pystr \<Rightarrow> quote_obj" where
  "make_quote quote_text author_text tag_list now =
     \<lparr>quote = quote_text, author = author_text, tags = tag_list,
      tags_count = length tag_list, timestamp = now\<rparr>"

definition create_quote_object ::
  "settings \<Rightarrow> pystr \<Rightarrow> pystr \<Rightarrow> pystr \<Rightarrow> pystr list \<Rightarrow> quote_obj option" where
  "create_quote_object cfg now quote_text author_text tag_list =
     (if int (length (py_strip quote_text)) < min_quote_length cfg \<or>
         int (length (py_strip quote_text)) > max_quote_length cfg then None
      else if \<not> validate_quote_content (py_strip quote_text) then None
      else Some (make_quote (py_strip quote_text) (py_strip author_text) tag_list now))"

definition is_unique_quote :: "quote_obj \<Rightarrow> parser \<Rightarrow> bool \<times> parser" where
  "is_unique_quote q st =
     (if generate_quote_hash (quote q) (author q) \<in> quote_hashes st then (False, st)
      else (True, st\<lparr>quote_hashes :=
              insert (generate_quote_hash (quote q) (author q)) (quote_hashes st)\<rparr>))"


section \<open>Site profiles\<close>

text \<open>A value of the selector dictionary is one selector or a list of selectors.\<close>

datatype selector = Str pystr | Lst "pystr list"

record selector_set =
  sel_quotes :: selector
  sel_text :: selector
  sel_author :: selector
  sel_tags :: selector
  sel_next_page :: selector

record site_config =
  site_name :: pystr
  base_url :: pystr
  site_selectors :: selector_set

definition toscrape_selectors :: selector_set where
  "toscrape_selectors =
     \<lparr>sel_quotes = Str (str_of ''div.quote''), sel_text = Str (str_of ''span.text''),
      sel_author = Str (str_of ''small.author''), sel_tags = Str (str_of ''a.tag''),
      sel_next_page = Str (str_of ''li.next a'')\<rparr>"

text \<open>The dictionary \<open>SUPPORTED_SITES\<close>, in insertion order.\<close>

definition SUPPORTED_SITES :: "(pystr \<times> site_config) list" where
  "SUPPORTED_SITES =
     [(str_of ''toscrape'',
       \<lparr>site_name = str_of ''Quotes to Scrape'', base_url = str_of ''http://quotes.toscrape.com'',
        site_selectors = toscrape_selectors\<rparr>)]"

definition generic_selectors :: selector_set where
  "generic_selectors =
     \<lparr>sel_quotes = Lst [str_of ''.quote'', str_of ''[class*='' @ [39] @ str_of ''quote'' @ [39] @ str_of '']'',
                         str_of ''blockquote''],
      sel_text = Lst [str_of ''.text'', str_of ''.quote-text'', str_of ''span'', str_of ''p''],
      sel_author = Lst [str_of ''.author'', str_of ''.quote-author'', str_of ''cite'', str_of ''small''],
      sel_tags = Lst [str_of ''.tag'', str_of ''.tags'', str_of ''.keywords''],
      sel_next_page = Lst [str_of ''.next'', str_of ''[rel='' @ [39] @ str_of ''next'' @ [39] @ str_of '']'',
                            str_of ''.pagination-next'']\<rparr>"

fun detect_in :: "(pystr \<times> site_config) list \<Rightarrow> pystr \<Rightarrow> selector_set" where
  "detect_in [] url = generic_selectors"
| "detect_in ((site_id, site) # sites) url =
     (if py_in (base_url site) url then site_selectors site else detect_in sites url)"

definition detect_site_type :: "pystr \<Rightarrow> selector_set" where
  "detect_site_type url = detect_in SUPPORTED_SITES url"

fun ensure_list :: "selector \<Rightarrow> pystr list" where
  "ensure_list (Lst l) = l"
| "ensure_list (Str s) = (if s \<noteq> [] then [s] else [])"

section \<open>The outside world\<close>

text \<open>
  What the parser calls but does not define is an argument of the model: the HTML
  parser and the selector engine of BeautifulSoup over elements of some type \<open>'e\<close>,
  \<open>urljoin\<close>, the network and the clock.
  \<^item> \<open>parse_html\<close> is \<open>BeautifulSoup(html, 'html.parser')\<close>;
  \<^item> \<open>select e s\<close> is \<open>e.select(s)\<close>, the matching descendants in document order;
    the selectors of the two profiles are well-formed, so the call does not raise;
  \<^item> \<open>strings e\<close> lists the text nodes below \<open>e\<close> in document order;
  \<^item> \<open>get_href e\<close> is \<open>e.get('href')\<close>;
  \<^item> \<open>http_get k url\<close> is what the \<open>k\<close>-th request of the run returns when it asks for
    \<open>url\<close>: the text of the response, or the exception that \<open>session.get\<close> or
    \<open>raise_for_status\<close> raises;
  \<^item> \<open>clock_now\<close> is the value of \<open>datetime.now().isoformat()\<close>; the model hands the
    same value to every call, and no statement depends on it.
\<close>

datatype exn = Timeout | HTTPError nat | RequestException | TypeError

record 'e env =
  parse_html :: "pystr \<Rightarrow> 'e"
  select :: "'e \<Rightarrow> pystr \<Rightarrow> 'e list"
  strings :: "'e \<Rightarrow> pystr list"
  get_href :: "'e \<Rightarrow> pystr option"
  urljoin :: "pystr \<Rightarrow> pystr \<Rightarrow> pystr"
  http_get :: "nat \<Rightarrow> pystr \<Rightarrow> exn + pystr"
  clock_now :: pystr

text \<open>
  \<open>e.select_one(s)\<close> is the first element of \<open>e.select(s)\<close>, or \<open>None\<close>.
  \<open>e.get_text(strip=True)\<close> strips every text node, drops the empty ones and joins the
  rest without a separator.
\<close>

definition select_one :: "'e env \<Rightarrow> 'e \<Rightarrow> pystr \<Rightarrow> 'e option" where
  "select_one E e s = (case select E e s of [] \<Rightarrow> None | x # xs \<Rightarrow> Some x)"

definition get_text_strip :: "'e env \<Rightarrow> 'e \<Rightarrow> pystr" where
  "get_text_strip E e = concat (filter (\<lambda>s. s \<noteq> []) (map py_strip (strings E e)))"

section \<open>Extraction\<close>

fun find_text_in :: "'e env \<Rightarrow> 'e \<Rightarrow> pystr list \<Rightarrow> pystr option" where
  "find_text_in E container [] = None"
| "find_text_in E container (s # rest) =
     (if s = [] then find_text_in E container rest
      else case select_one E container s of
             None \<Rightarrow> find_text_in E container rest
           | Some element \<Rightarrow>
               if get_text_strip E element \<noteq> [] then Some (get_text_strip E element)
               else find_text_in E container rest)"

definition find_element_text :: "'e env \<Rightarrow> 'e \<Rightarrow> selector \<Rightarrow> pystr option" where
  "find_element_text E container sel = find_text_in E container (ensure_list sel)"

text \<open>The two loops of \<open>_find_tags\<close>; the last argument is the list \<open>tags\<close> so far.\<close>

fun collect_tags :: "'e env \<Rightarrow> 'e list \<Rightarrow> pystr list \<Rightarrow> pystr list" where
  "collect_tags E [] tag_list = tag_list"
| "collect_tags E (element # elements) tag_list =
     (if get_text_strip E element \<noteq> []
      then collect_tags E elements (tag_list @ [get_text_strip E element])
      else collect_tags E elements tag_list)"

fun find_tags_in :: "'e env \<Rightarrow> 'e \<Rightarrow> pystr list \<Rightarrow> pystr list \<Rightarrow> pystr list" where
  "find_tags_in E container [] tag_list = tag_list"
| "find_tags_in E container (s # rest) tag_list =
     (if s = [] then find_tags_in E container rest tag_list
      else find_tags_in E container rest (collect_tags E (select E container s) tag_list))"

definition find_tags :: "'e env \<Rightarrow> 'e \<Rightarrow> selector \<Rightarrow> pystr list" where
  "find_tags E container sel = find_tags_in E container (ensure_list sel) []"

text \<open>The tags as claim C7 words them: the union over the candidates, in order.\<close>

definition tags_union :: "'e env \<Rightarrow> 'e \<Rightarrow> pystr list \<Rightarrow> pystr list" where
  "tags_union E container candidates =
     filter (\<lambda>t. t \<noteq> [])
       (map (get_text_strip E) (concat (map (select E container) candidates)))"

text \<open>The first loop of \<open>parse_quotes\<close>, which stops at the first selector that matches.\<close>

fun quote_containers :: "'e env \<Rightarrow> 'e \<Rightarrow> pystr list \<Rightarrow> 'e list" where
  "quote_containers E soup [] = []"
| "quote_containers E soup (s # rest) =
     (if select E soup s \<noteq> [] then select E soup s else quote_containers E soup rest)"

text \<open>\<open>x or "Unknown"\<close> on the result of \<open>_find_element_text\<close>.\<close>

definition or_unknown :: "pystr option \<Rightarrow> pystr" where
  "or_unknown r =
     (case r of None \<Rightarrow> str_of ''Unknown'' | Some a \<Rightarrow> if a = [] then str_of ''Unknown'' else a)"

text \<open>
  The body of the loop over the containers: the record it appends, if any, and the
  parser afterwards. With total library functions nothing in the body raises, so the
  \<open>except\<close> branch (skip the container) has no counterpart here.
\<close>

definition parse_container ::
  "'e env \<Rightarrow> settings \<Rightarrow> selector_set \<Rightarrow> 'e \<Rightarrow> parser \<Rightarrow> quote_obj option \<times> parser" where
  "parse_container E cfg sels container st =
     (case find_element_text E container (sel_text sels) of
        None \<Rightarrow> (None, st)
      | Some quote_text \<Rightarrow>
          if quote_text = [] then (None, st)
          else
            (case create_quote_object cfg (clock_now E) quote_text
                    (or_unknown (find_element_text E container (sel_author sels)))
                    (find_tags E container (sel_tags sels)) of
               None \<Rightarrow> (None, st)
             | Some q \<Rightarrow>
                 if fst (is_unique_quote q st) then (Some q, snd (is_unique_quote q st))
                 else (None, snd (is_unique_quote q st))))"

fun parse_containers ::
  "'e env \<Rightarrow> settings \<Rightarrow> selector_set \<Rightarrow> 'e list \<Rightarrow> quote_obj list \<Rightarrow> parser \<Rightarrow>
   quote_obj list \<times> parser" where
  "parse_containers E cfg sels [] quotes_data st = (quotes_data, st)"
| "parse_containers E cfg sels (container # rest) quotes_data st =
     (case fst (parse_container E cfg sels container st) of
        None \<Rightarrow> parse_containers E cfg sels rest quotes_data
                  (snd (parse_container E cfg sels container st))
      | Some q \<Rightarrow> parse_containers E cfg sels rest (quotes_data @ [q])
                  (snd (parse_container E cfg sels container st)))"

definition parse_quotes ::
  "'e env \<Rightarrow> settings \<Rightarrow> pystr \<Rightarrow> selector_set \<Rightarrow> parser \<Rightarrow> quote_obj list \<times> parser" where
  "parse_quotes E cfg html sels st =
     (if quote_containers E (parse_html E html) (ensure_list (sel_quotes sels)) = []
      then ([], st)
      else parse_containers E cfg sels
             (quote_containers E (parse_html E html) (ensure_list (sel_quotes sels))) [] st)"

fun next_in :: "'e env \<Rightarrow> 'e \<Rightarrow> pystr list \<Rightarrow> pystr option" where
  "next_in E soup [] = None"
| "next_in E soup (s # rest) =
     (case select_one E soup s of
        None \<Rightarrow> next_in E soup rest
      | Some next_element \<Rightarrow>
          (case get_href E next_element of
             None \<Rightarrow> next_in E soup rest
           | Some next_url \<Rightarrow> if next_url \<noteq> [] then Some next_url else next_in E soup rest))"

definition has_next_page :: "'e env \<Rightarrow> pystr \<Rightarrow> selector_set \<Rightarrow> pystr option" where
  "has_next_page E html sels = next_in E (parse_html E html) (ensure_list (sel_next_page sels))"

section \<open>Fetching with retries\<close>

text \<open>The body of \<open>fetch_page\<close>: one request; its \<open>except\<close> clauses log and re-raise.\<close>

definition fetch_once :: "'e env \<Rightarrow> pystr \<Rightarrow> parser \<Rightarrow> (exn + pystr) \<times> parser" where
  "fetch_once E url st =
     (http_get E (length (requests st)) url, st\<lparr>requests := requests st @ [url]\<rparr>)"

text \<open>\<open>raise last_exception\<close>; raising \<open>None\<close> is a \<open>TypeError\<close>.\<close>

definition raise_last :: "exn option \<Rightarrow> parser \<Rightarrow> (exn + 'a) \<times> parser" where
  "raise_last last_exception st =
     (case last_exception of None \<Rightarrow> (Inl TypeError, st) | Some e \<Rightarrow> (Inl e, st))"

definition current_delay :: "nat \<Rightarrow> bool \<Rightarrow> nat \<Rightarrow> nat" where
  "current_delay delay exponential_backoff attempt =
     (if exponential_backoff then delay * 2 ^ attempt else delay)"

text \<open>
  The wrapper of \<open>retry_on_failure\<close>, from iteration \<open>attempt\<close> of
  \<open>for attempt in range(retries)\<close> on. Every exception is caught (\<open>exceptions\<close> is
  \<open>(Exception,)\<close>).
\<close>

function retry_loop ::
  "nat \<Rightarrow> nat \<Rightarrow> bool \<Rightarrow> (parser \<Rightarrow> (exn + 'a) \<times> parser) \<Rightarrow> nat \<Rightarrow> exn option \<Rightarrow> parser \<Rightarrow>
   (exn + 'a) \<times> parser" where
  "retry_loop retries delay exponential_backoff func attempt last_exception st =
     (if attempt < retries then
        (case fst (func st) of
           Inr v \<Rightarrow> (Inr v, snd (func st))
         | Inl e \<Rightarrow>
             if attempt = retries - 1 then raise_last (Some e) (snd (func st))
             else retry_loop retries delay exponential_backoff func (attempt + 1) (Some e)
                    ((snd (func st))\<lparr>slept := slept (snd (func st)) @
                        [current_delay delay exponential_backoff attempt]\<rparr>))
      else raise_last last_exception st)"
  by pat_completeness auto
termination
  by (relation "measure (\<lambda>(retries, delay, eb, func, attempt, last, st). retries - attempt)") auto

declare retry_loop.simps [simp del]

definition retry_on_failure ::
  "nat \<Rightarrow> nat \<Rightarrow> bool \<Rightarrow> (parser \<Rightarrow> (exn + 'a) \<times> parser) \<Rightarrow> parser \<Rightarrow> (exn + 'a) \<times> parser" where
  "retry_on_failure retries delay exponential_backoff func st =
     retry_loop retries delay exponential_backoff func 0 None st"

definition fetch_page :: "'e env \<Rightarrow> pystr \<Rightarrow> parser \<Rightarrow> (exn + pystr) \<times> parser" where
  "fetch_page E url st = retry_on_failure 3 2 True (fetch_once E url) st"

section \<open>The pagination walk\<close>

definition polite_sleep :: "nat \<Rightarrow> nat \<Rightarrow> parser \<Rightarrow> parser" where
  "polite_sleep delay page_count st =
     (if delay > 0 \<and> page_count > 0 then st\<lparr>slept := slept st @ [delay]\<rparr> else st)"

text \<open>After a successful fetch: mark the URL, parse the page, extend the results.\<close>

definition record_page ::
  "'e env \<Rightarrow> settings \<Rightarrow> selector_set \<Rightarrow> pystr \<Rightarrow> pystr \<Rightarrow> parser \<Rightarrow> parser" where
  "record_page E cfg sels current_url html st =
     (case parse_quotes E cfg html sels (st\<lparr>visited_urls := insert current_url (visited_urls st)\<rparr>) of
        (quotes, st') \<Rightarrow>
          st'\<lparr>all_quotes := all_quotes st' @ quotes,
              total_quotes := total_quotes st' + length quotes,
              total_pages := total_pages st' + 1\<rparr>)"

text \<open>
  The \<open>while\<close> loop of \<open>parse_all_pages\<close>. Nothing bounds the number of distinct URLs
  a site can link to, so the loop need not end: the result is \<open>None\<close> when it does not.
\<close>

partial_function (option) parse_loop ::
  "'e env \<Rightarrow> settings \<Rightarrow> selector_set \<Rightarrow> nat \<Rightarrow> pystr \<Rightarrow> nat \<Rightarrow> parser \<Rightarrow> parser option" where
  "parse_loop E cfg sels delay current_url page_count st =
     (if current_url \<noteq> [] \<and> current_url \<notin> visited_urls st then
        (case fst (fetch_page E current_url (polite_sleep delay page_count st)) of
           Inl e \<Rightarrow>
             Some ((snd (fetch_page E current_url (polite_sleep delay page_count st)))
                    \<lparr>failed_requests :=
                       failed_requests (snd (fetch_page E current_url
                         (polite_sleep delay page_count st))) + 1\<rparr>)
         | Inr html \<Rightarrow>
             (case has_next_page E html sels of
                None \<Rightarrow>
                  Some (record_page E cfg sels current_url html
                         (snd (fetch_page E current_url (polite_sleep delay page_count st))))
              | Some next_page \<Rightarrow>
                  parse_loop E cfg sels delay (urljoin E current_url next_page) (page_count + 1)
                    (record_page E cfg sels current_url html
                      (snd (fetch_page E current_url (polite_sleep delay page_count st))))))
      else Some st)"

definition parse_all_pages ::
  "'e env \<Rightarrow> settings \<Rightarrow> pystr \<Rightarrow> nat \<Rightarrow> parser \<Rightarrow> parser option" where
  "parse_all_pages E cfg start_url delay st =
     parse_loop E cfg (detect_site_type start_url) delay start_url 0
       (st\<lparr>start_time := Some (clock_now E)\<rparr>)"

section \<open>The parser at start, and a small site\<close>

text \<open>The fields as \<open>__init__\<close> sets them, with empty logs.\<close>

definition new_parser :: parser where
  "new_parser =
     \<lparr>visited_urls = {}, all_quotes = [], quote_hashes = {}, start_time = None,
      total_pages = 0, total_quotes = 0, failed_requests = 0, requests = [], slept = []\<rparr>"

text \<open>
  A site of two pages for the worked examples; elements are numbers. Page \<open>A\<close> (element
  1) has three containers of class \<open>quote\<close>: 10 is a full quote with an author, two
  tags of class \<open>tag\<close> and one of class \<open>keywords\<close>; 11 repeats the quote of 10 in
  other letter case and with other white space; 12 has no text. The page also has a
  \<open>blockquote\<close> (13) outside them. Its link of class \<open>next\<close> leads to page \<open>B\<close>
  (element 2), whose only quote is a \<open>blockquote\<close> (20) with its text in a \<open>p\<close> and
  no author, and whose link leads back to page \<open>A\<close>.
\<close>

definition demo_url_a :: pystr where
  "demo_url_a = str_of ''http://demo.test/''"

definition demo_url_b :: pystr where
  "demo_url_b = str_of ''http://demo.test/page/2/''"

definition demo_select :: "nat \<Rightarrow> pystr \<Rightarrow> nat list" where
  "demo_select e s =
     (if e = 1 \<and> s = str_of ''.quote'' then [10, 11, 12]
      else if e = 1 \<and> s = str_of ''blockquote'' then [13]
      else if e = 1 \<and> s = str_of ''.next'' then [19]
      else if e = 2 \<and> s = str_of ''blockquote'' then [20]
      else if e = 2 \<and> s = str_of ''.next'' then [29]
      else if e = 10 \<and> s = str_of ''.text'' then [100]
      else if e = 10 \<and> s = str_of ''.author'' then [101]
      else if e = 10 \<and> s = str_of ''.tag'' then [102, 103]
      else if e = 10 \<and> s = str_of ''.keywords'' then [104]
      else if e = 11 \<and> s = str_of ''.text'' then [110]
      else if e = 11 \<and> s = str_of ''.author'' then [111]
      else if e = 20 \<and> s = str_of ''p'' then [200]
      else [])"

definition demo_strings :: "nat \<Rightarrow> pystr list" where
  "demo_strings e =
     (if e = 100 then [str_of '' Be yourself; everyone else is already taken. '']
      else if e = 101 then [str_of ''Oscar Wilde'']
      else if e = 102 then [str_of ''life'']
      else if e = 103 then [str_of '' humor '']
      else if e = 104 then [str_of ''life'']
      else if e = 110 then [str_of ''BE YOURSELF; everyone else is already taken.'']
      else if e = 111 then [str_of '' oscar wilde '']
      else if e = 200 then [str_of ''Simplicity is the ultimate sophistication.'']
      else [])"

definition demo_env :: "nat env" where
  "demo_env =
     \<lparr>parse_html = (\<lambda>h. if h = str_of ''A'' then 1 else if h = str_of ''B'' then 2 else 0),
      select = demo_select,
      strings = demo_strings,
      get_href = (\<lambda>e. if e = 19 then Some (str_of ''/page/2/'')
                        else if e = 29 then Some (str_of ''/'') else None),
      urljoin = (\<lambda>base link. if link = str_of ''/page/2/'' then demo_url_b
                              else if link = str_of ''/'' then demo_url_a else link),
      http_get = (\<lambda>k url. if url = demo_url_a then Inr (str_of ''A'')
                             else if url = demo_url_b then Inr (str_of ''B'')
                             else Inl (HTTPError 404)),
      clock_now = str_of ''2025-11-20T10:00:00''\<rparr>"

text \<open>The same site when every request fails, each attempt in its own way.\<close>

definition demo_down :: "nat env" where
  "demo_down =
     demo_env\<lparr>http_get := (\<lambda>k url. if k = 0 then Inl Timeout
                                       else if k = 1 then Inl (HTTPError 503)
                                       else Inl RequestException)\<rparr>"

section \<open>Frame conditions\<close>

text \<open>
  Which fields a step may change: extraction touches the fingerprints only, fetching the
  two logs only.
\<close>

definition hashes_only :: "parser \<Rightarrow> parser \<Rightarrow> bool" where
  "hashes_only st st' \<longleftrightarrow> st' = st\<lparr>quote_hashes := quote_hashes st'\<rparr>"

definition logs_only :: "parser \<Rightarrow> parser \<Rightarrow> bool" where
  "logs_only st st' \<longleftrightarrow> st' = st\<lparr>requests := requests st', slept := slept st'\<rparr>"

text \<open>The fingerprint of a record.\<close>

definition fingerprint :: "quote_obj \<Rightarrow> pystr" where
  "fingerprint q = generate_quote_hash (quote q) (author q)"

section \<open>White space and case\<close>








text \<open>The definitions that evaluate the tables at a given character.\<close>

lemmas unicode_eval =
  py_lower_def py_lower_char_def py_upper_def py_upper_char_def py_isalnum_char_def py_isdigit_char_def py_cased_def py_case_ignorable_def final_sigma_def py_isspace_def
  alnum_ranges_1_def alnum_ranges_2_def alnum_ranges_3_def alnum_ranges_4_def alnum_ranges_5_def
  alnum_ranges_6_def alnum_ranges_7_def alnum_ranges_8_def alnum_ranges_9_def alnum_ranges_10_def
  alnum_ranges_11_def alnum_ranges_12_def alnum_ranges_13_def alnum_ranges_14_def alnum_ranges_15_def
  alnum_ranges_16_def alnum_ranges_17_def alnum_ranges_18_def alnum_ranges_19_def alnum_ranges_20_def
  alnum_ranges_21_def alnum_ranges_22_def alnum_ranges_23_def alnum_ranges_24_def alnum_ranges_25_def
  alnum_ranges_26_def alnum_ranges_27_def alnum_ranges_28_def alnum_ranges_29_def alnum_ranges_30_def
  alnum_ranges_31_def alnum_ranges_32_def alnum_ranges_33_def alnum_ranges_34_def alnum_ranges_35_def
  alnum_ranges_36_def alnum_ranges_37_def alnum_ranges_38_def alnum_ranges_39_def alnum_ranges_40_def
  alnum_ranges_41_def alnum_ranges_42_def alnum_ranges_43_def alnum_ranges_44_def alnum_ranges_45_def
  alnum_ranges_46_def alnum_ranges_block_def digit_ranges_1_def digit_ranges_2_def digit_ranges_3_def
  digit_ranges_4_def digit_ranges_5_def digit_ranges_6_def digit_ranges_block_def cased_ranges_1_def
  cased_ranges_2_def cased_ranges_3_def cased_ranges_4_def cased_ranges_5_def cased_ranges_6_def
  cased_ranges_7_def cased_ranges_8_def cased_ranges_9_def cased_ranges_10_def cased_ranges_block_def
  case_ignorable_ranges_1_def case_ignorable_ranges_2_def case_ignorable_ranges_3_def case_ignorable_ranges_4_def case_ignorable_ranges_5_def
  case_ignorable_ranges_6_def case_ignorable_ranges_7_def case_ignorable_ranges_8_def case_ignorable_ranges_9_def case_ignorable_ranges_10_def
  case_ignorable_ranges_11_def case_ignorable_ranges_12_def case_ignorable_ranges_13_def case_ignorable_ranges_14_def case_ignorable_ranges_15_def
  case_ignorable_ranges_16_def case_ignorable_ranges_17_def case_ignorable_ranges_18_def case_ignorable_ranges_19_def case_ignorable_ranges_20_def
  case_ignorable_ranges_21_def case_ignorable_ranges_22_def case_ignorable_ranges_23_def case_ignorable_ranges_24_def case_ignorable_ranges_25_def
  case_ignorable_ranges_26_def case_ignorable_ranges_27_def case_ignorable_ranges_block_def lower_rows_1_def lower_rows_2_def
  lower_rows_3_def lower_rows_4_def lower_rows_5_def lower_rows_6_def lower_rows_7_def
  lower_rows_8_def lower_rows_9_def lower_rows_10_def lower_rows_11_def lower_rows_12_def
  lower_rows_block_def upper_rows_1_def upper_rows_2_def upper_rows_3_def upper_rows_4_def
  upper_rows_5_def upper_rows_6_def upper_rows_7_def upper_rows_8_def upper_rows_9_def
  upper_rows_10_def upper_rows_11_def upper_rows_12_def upper_rows_13_def upper_rows_block_def
  lower_special_1_def lower_special_block_def upper_special_1_def upper_special_2_def upper_special_3_def
  upper_special_4_def upper_special_5_def upper_special_6_def upper_special_7_def upper_special_block_def

text \<open>
  Lower case beyond ASCII: Cyrillic capitals, the capital sigma at the end of a word and
  inside one, and the dotted capital I, whose lower case has two code points.
\<close>

lemma py_lower_examples:
  "py_lower [1055, 1056, 1048, 1042, 1045, 1058, 44, 32, 1052, 1048, 1056] = [1087, 1088, 1080, 1074, 1077, 1090, 44, 32, 1084, 1080, 1088] \<and>
   py_lower [927, 916, 927, 931, 32, 931, 927, 934, 927, 931, 46] = [959, 948, 959, 962, 32, 963, 959, 966, 959, 962, 46] \<and>
   py_lower [304, 115, 116, 97, 110, 98, 117, 108] = [105, 775, 115, 116, 97, 110, 98, 117, 108]"
  by (simp add: unicode_eval)

lemma py_upper_examples:
  "py_upper [83, 116, 114, 97, 223, 101, 32, 454, 32, 64257, 110] = [83, 84, 82, 65, 83, 83, 69, 32, 452, 32, 70, 73, 78]"
  by (simp add: unicode_eval)


section \<open>Evaluating the digest\<close>


lemma replicate_num: "replicate (numeral k) x = x # replicate (pred_numeral k) x"
  by (simp add: numeral_eq_Suc)

lemmas md5_eval =
  md5_hex_def hexdigest_def hex_digit_def md5_digest_def word_bytes_def md5_pad_def
  md5_compress_def md5_block_def replicate_num
  md5_table1_def md5_table2_def md5_table3_def md5_table4_def
  md5_F_def md5_G_def md5_H_def md5_I_def add32_def not32_def rotl32_def
  encode_utf8_def utf8_char_def str_of_def

text \<open>The digests of the empty message and of \<open>abc\<close>, as RFC 1321 lists them.\<close>

lemma md5_test_empty: "md5_hex [] = str_of ''d41d8cd98f00b204e9800998ecf8427e''"
  by (simp add: md5_eval)

lemma md5_test_abc:
  "md5_hex (encode_utf8 (str_of ''abc'')) = str_of ''900150983cd24fb0d6963f7d28e17f72''"
  by (simp add: md5_eval)




section \<open>Fingerprints\<close>




section \<open>Validation\<close>






text \<open>
  Beyond ASCII: a Russian sentence in guillemets gives a record, and ten digits of which
  three are Arabic-Indic give none, as \<open>str.isdigit\<close> holds of them.
\<close>

lemma create_quote_object_examples:
  "create_quote_object DEFAULT_CONFIG [] [171, 1042, 1089, 1105, 32, 1073, 1091, 1076, 1077, 1090, 32, 1093, 1086, 1088, 1086, 1096, 1086, 187] [] [] =
     Some (make_quote [171, 1042, 1089, 1105, 32, 1073, 1091, 1076, 1077, 1090, 32, 1093, 1086, 1088, 1086, 1096, 1086, 187] [] [] []) \<and>
   create_quote_object DEFAULT_CONFIG [] [49, 50, 51, 52, 53, 54, 55, 1632, 1633, 1634] [] [] = None"
  by (simp add: create_quote_object_def DEFAULT_CONFIG_def validate_quote_content_def py_isdigit_def special_chars_def re_word_char_def unicode_eval py_strip_def)

section \<open>Selector resolution\<close>

lemma py_in_sublist: "py_in sub s = sublist sub s"
proof (induction s)
  case Nil
  show ?case by (cases sub) simp_all
next
  case (Cons c s)
  then show ?case by (cases sub) (simp_all add: sublist_code)
qed

lemma py_in_iff: "py_in sub s \<longleftrightarrow> (\<exists>p r. s = p @ sub @ r)"
  by (simp add: py_in_sublist sublist_def)

lemma detect_site_type_eq:
  "detect_site_type url =
     (if py_in (str_of ''http://quotes.toscrape.com'') url then toscrape_selectors
      else generic_selectors)"
  by (simp add: detect_site_type_def SUPPORTED_SITES_def)

lemma candidates_toscrape:
  "ensure_list (sel_quotes toscrape_selectors) \<noteq> [] \<and>
   ensure_list (sel_text toscrape_selectors) \<noteq> [] \<and>
   ensure_list (sel_author toscrape_selectors) \<noteq> [] \<and>
   ensure_list (sel_tags toscrape_selectors) \<noteq> [] \<and>
   ensure_list (sel_next_page toscrape_selectors) \<noteq> []"
  by (simp add: toscrape_selectors_def str_of_def)

lemma candidates_generic:
  "ensure_list (sel_quotes generic_selectors) \<noteq> [] \<and>
   ensure_list (sel_text generic_selectors) \<noteq> [] \<and>
   ensure_list (sel_author generic_selectors) \<noteq> [] \<and>
   ensure_list (sel_tags generic_selectors) \<noteq> [] \<and>
   ensure_list (sel_next_page generic_selectors) \<noteq> []"
  by (simp add: generic_selectors_def)

text \<open>
  Claim C9, as the code has it. The resolver returns the profile of the one registered
  site when the URL contains the site's base URL anywhere, and the generic selectors
  otherwise. A URL that starts with the base URL contains it. Each field of the result
  has at least one candidate.
\<close>

theorem selector_resolution:
  "detect_site_type url =
     (if py_in (str_of ''http://quotes.toscrape.com'') url then toscrape_selectors
      else generic_selectors) \<and>
   (py_in (str_of ''http://quotes.toscrape.com'') url \<longleftrightarrow>
      (\<exists>p r. url = p @ str_of ''http://quotes.toscrape.com'' @ r)) \<and>
   (prefix (str_of ''http://quotes.toscrape.com'') url \<longrightarrow>
      detect_site_type url = toscrape_selectors) \<and>
   ensure_list (sel_quotes (detect_site_type url)) \<noteq> [] \<and>
   ensure_list (sel_text (detect_site_type url)) \<noteq> [] \<and>
   ensure_list (sel_author (detect_site_type url)) \<noteq> [] \<and>
   ensure_list (sel_tags (detect_site_type url)) \<noteq> [] \<and>
   ensure_list (sel_next_page (detect_site_type url)) \<noteq> []"
proof (intro conjI)
  show "detect_site_type url =
     (if py_in (str_of ''http://quotes.toscrape.com'') url then toscrape_selectors
      else generic_selectors)"
    by (rule detect_site_type_eq)
  show "py_in (str_of ''http://quotes.toscrape.com'') url \<longleftrightarrow>
      (\<exists>p r. url = p @ str_of ''http://quotes.toscrape.com'' @ r)"
    by (rule py_in_iff)
  show "prefix (str_of ''http://quotes.toscrape.com'') url \<longrightarrow>
      detect_site_type url = toscrape_selectors"
    by (simp only: detect_site_type_eq py_in_sublist) (simp add: prefix_imp_sublist)
qed (simp_all only: detect_site_type_eq candidates_toscrape candidates_generic if_split,
     simp_all add: candidates_toscrape candidates_generic)

theorem selector_resolution_witness:
  "detect_site_type (str_of ''http://quotes.toscrape.com/tag/love/'') = toscrape_selectors \<and>
   detect_site_type (str_of ''http://example.org/quotes'') = generic_selectors"
proof -
  have a: "py_in (str_of ''http://quotes.toscrape.com'')
             (str_of ''http://quotes.toscrape.com/tag/love/'')"
    by (simp add: str_of_def)
  have b: "\<not> py_in (str_of ''http://quotes.toscrape.com'') (str_of ''http://example.org/quotes'')"
    by (simp add: str_of_def)
  show ?thesis
    using selector_resolution [of "str_of ''http://quotes.toscrape.com/tag/love/''", THEN conjunct1]
      selector_resolution [of "str_of ''http://example.org/quotes''", THEN conjunct1]
    by (simp only: a b if_True if_False simp_thms)
qed

text \<open>
  Claim C9 as stated fails: a URL that holds the base URL only as an inner substring
  gets the site's profile, not the generic selectors.
\<close>

lemma profiles_differ: "toscrape_selectors \<noteq> generic_selectors"
  by (simp add: toscrape_selectors_def generic_selectors_def)

theorem inner_substring_selects_profile:
  "\<not> prefix (str_of ''http://quotes.toscrape.com'')
        (str_of ''http://a.example/?u=http://quotes.toscrape.com'') \<and>
   detect_site_type (str_of ''http://a.example/?u=http://quotes.toscrape.com'') \<noteq>
     generic_selectors"
proof -
  have "py_in (str_of ''http://quotes.toscrape.com'')
          (str_of ''http://a.example/?u=http://quotes.toscrape.com'')"
    by (simp add: str_of_def)
  then have "detect_site_type (str_of ''http://a.example/?u=http://quotes.toscrape.com'') =
      toscrape_selectors"
    by (simp only: detect_site_type_eq if_True)
  moreover have "\<not> prefix (str_of ''http://quotes.toscrape.com'')
        (str_of ''http://a.example/?u=http://quotes.toscrape.com'')"
    by (simp add: str_of_def)
  ultimately show ?thesis
    using profiles_differ by simp
qed

section \<open>Extraction\<close>

lemma collect_tags_eq:
  "collect_tags E es acc = acc @ filter (\<lambda>t. t \<noteq> []) (map (get_text_strip E) es)"
  by (induction es arbitrary: acc) simp_all

lemma find_tags_in_eq:
  "find_tags_in E c ss acc = acc @ tags_union E c (filter (\<lambda>s. s \<noteq> []) ss)"
  by (induction ss arbitrary: acc) (simp_all add: tags_union_def collect_tags_eq)

lemma length_tags_union:
  "length (tags_union E c ss) =
     sum_list (map (\<lambda>s. length (filter (\<lambda>e. get_text_strip E e \<noteq> []) (select E c s))) ss)"
  by (induction ss) (simp_all add: tags_union_def filter_map comp_def)

lemma quote_containers_first:
  "\<forall>p\<in>set pre. select E soup p = [] \<Longrightarrow> select E soup s \<noteq> [] \<Longrightarrow>
   quote_containers E soup (pre @ s # post) = select E soup s"
  by (induction pre) simp_all

lemma quote_containers_none:
  "\<forall>s\<in>set ss. select E soup s = [] \<Longrightarrow> quote_containers E soup ss = []"
  by (induction ss) simp_all


section \<open>What each step leaves unchanged\<close>

lemma hashes_only_refl: "hashes_only st st"
  by (simp add: hashes_only_def)

lemma hashes_only_trans: "hashes_only a b \<Longrightarrow> hashes_only b c \<Longrightarrow> hashes_only a c"
proof -
  assume ab: "hashes_only a b" and bc: "hashes_only b c"
  have "c = b\<lparr>quote_hashes := quote_hashes c\<rparr>" using bc by (simp add: hashes_only_def)
  also have "b = a\<lparr>quote_hashes := quote_hashes b\<rparr>" using ab by (simp add: hashes_only_def)
  finally show ?thesis by (simp add: hashes_only_def)
qed

lemma is_unique_quote_frame: "hashes_only st (snd (is_unique_quote q st))"
  by (simp add: is_unique_quote_def hashes_only_def)

lemma parse_container_frame: "hashes_only st (snd (parse_container E cfg sels c st))"
  by (simp add: parse_container_def hashes_only_refl is_unique_quote_frame split: option.splits)

lemma parse_containers_frame: "hashes_only st (snd (parse_containers E cfg sels cs acc st))"
proof (induction cs arbitrary: acc st)
  case Nil
  show ?case by (simp add: hashes_only_refl)
next
  case (Cons c cs)
  show ?case
    by (cases "fst (parse_container E cfg sels c st)")
      (auto intro: hashes_only_trans [OF parse_container_frame Cons.IH])
qed

lemma parse_quotes_frame: "hashes_only st (snd (parse_quotes E cfg html sels st))"
  by (simp add: parse_quotes_def hashes_only_refl parse_containers_frame)

lemma logs_only_refl: "logs_only st st"
  by (simp add: logs_only_def)

lemma logs_only_trans: "logs_only a b \<Longrightarrow> logs_only b c \<Longrightarrow> logs_only a c"
proof -
  assume ab: "logs_only a b" and bc: "logs_only b c"
  have "c = b\<lparr>requests := requests c, slept := slept c\<rparr>" using bc by (simp add: logs_only_def)
  also have "b = a\<lparr>requests := requests b, slept := slept b\<rparr>" using ab by (simp add: logs_only_def)
  finally show ?thesis by (simp add: logs_only_def)
qed

lemma fetch_once_frame: "logs_only st (snd (fetch_once E url st))"
  by (simp add: fetch_once_def logs_only_def)

lemma raise_last_frame: "snd (raise_last l st) = st"
  by (simp add: raise_last_def split: option.splits)

lemma retry_loop_frame:
  "logs_only st (snd (retry_loop retries delay eb (fetch_once E url) attempt l st))"
proof (induction "retries - attempt" arbitrary: attempt l st)
  case 0
  then show ?case
    by (subst retry_loop.simps) (simp add: raise_last_frame logs_only_refl)
next
  case (Suc k)
  let ?st' = "snd (fetch_once E url st)"
  have step: "logs_only st ?st'" by (rule fetch_once_frame)
  have sl: "logs_only ?st' (?st'\<lparr>slept := slept ?st' @ [current_delay delay eb attempt]\<rparr>)"
    by (simp add: logs_only_def)
  have rec: "logs_only (?st'\<lparr>slept := slept ?st' @ [current_delay delay eb attempt]\<rparr>)
      (snd (retry_loop retries delay eb (fetch_once E url) (Suc attempt) l'
        (?st'\<lparr>slept := slept ?st' @ [current_delay delay eb attempt]\<rparr>)))" for l'
    using Suc.hyps(1) [of "Suc attempt"] Suc.hyps(2) by simp
  have chain: "logs_only st
      (snd (retry_loop retries delay eb (fetch_once E url) (Suc attempt) l'
        (?st'\<lparr>slept := slept ?st' @ [current_delay delay eb attempt]\<rparr>)))" for l'
    by (rule logs_only_trans [OF step logs_only_trans [OF sl rec]])
  show ?case
    by (subst retry_loop.simps)
      (auto simp: raise_last_frame logs_only_refl step chain split: sum.splits)
qed

lemma fetch_page_frame: "logs_only st (snd (fetch_page E url st))"
  by (simp add: fetch_page_def retry_on_failure_def retry_loop_frame)

lemma polite_sleep_frame: "logs_only st (polite_sleep delay pc st)"
  by (simp add: polite_sleep_def logs_only_def)

section \<open>Retries\<close>

lemma retry_loop_all_fail:
  assumes "\<forall>i. attempt \<le> i \<and> i < retries \<longrightarrow> http_get E (n + i) url = Inl (errs i)"
    and "attempt < retries" and "length (requests st) = n + attempt"
  shows "retry_loop retries delay eb (fetch_once E url) attempt l st =
     (Inl (errs (retries - 1)),
      st\<lparr>requests := requests st @ replicate (retries - attempt) url,
         slept := slept st @ map (current_delay delay eb) [attempt..<retries - 1]\<rparr>)"
  using assms
proof (induction "retries - attempt" arbitrary: attempt l st)
  case 0
  then show ?case by simp
next
  case (Suc k)
  have f: "fetch_once E url st = (Inl (errs attempt), st\<lparr>requests := requests st @ [url]\<rparr>)"
    using Suc.prems by (simp add: fetch_once_def)
  show ?case
  proof (cases "attempt = retries - 1")
    case True
    then have "retries - attempt = 1" using Suc.prems(2) by simp
    then show ?thesis
      using True Suc.prems(2)
      by (subst retry_loop.simps) (simp add: f raise_last_def)
  next
    case False
    let ?st' = "st\<lparr>requests := requests st @ [url],
        slept := slept st @ [current_delay delay eb attempt]\<rparr>"
    have k: "k = retries - Suc attempt" using Suc.hyps(2) by simp
    have lt: "Suc attempt < retries" using False Suc.prems(2) by simp
    have ih: "retry_loop retries delay eb (fetch_once E url) (Suc attempt) (Some (errs attempt)) ?st' =
       (Inl (errs (retries - 1)),
        ?st'\<lparr>requests := requests ?st' @ replicate (retries - Suc attempt) url,
           slept := slept ?st' @ map (current_delay delay eb) [Suc attempt..<retries - 1]\<rparr>)"
      using Suc.prems(1,3) by (intro Suc.hyps(1) [OF k _ lt]) simp_all
    have r: "replicate (retries - attempt) url = url # replicate (retries - Suc attempt) url"
      using Suc.prems(2) by (simp add: Suc_diff_Suc replicate_Suc [symmetric] del: replicate_Suc)
    have u: "[attempt..<retries - Suc 0] = attempt # [Suc attempt..<retries - Suc 0]"
      using lt by (simp add: upt_conv_Cons)
    show ?thesis
      using False Suc.prems(2)
      by (subst retry_loop.simps) (simp add: f ih r u)
  qed
qed

lemma retry_on_failure_all_fail:
  assumes "0 < retries"
    and "\<forall>i<retries. http_get E (length (requests st) + i) url = Inl (errs i)"
  shows "retry_on_failure retries delay eb (fetch_once E url) st =
     (Inl (errs (retries - 1)),
      st\<lparr>requests := requests st @ replicate retries url,
         slept := slept st @ map (current_delay delay eb) [0..<retries - 1]\<rparr>)"
  using retry_loop_all_fail [of 0 retries E "length (requests st)" url errs st delay eb None] assms
  by (simp add: retry_on_failure_def)

lemma fetch_page_all_fail:
  assumes "\<forall>i<3. http_get E (length (requests st) + i) url = Inl (errs i)"
  shows "fetch_page E url st =
     (Inl (errs 2), st\<lparr>requests := requests st @ [url, url, url], slept := slept st @ [2, 4]\<rparr>)"
proof -
  have r: "replicate (3::nat) url = [url, url, url]"
    by (simp add: numeral_3_eq_3)
  have u: "map (current_delay 2 True) [0..<3 - 1] = [2, 4]"
    by (simp add: upt_rec current_delay_def)
  show ?thesis
    using retry_on_failure_all_fail [of 3 E st url errs 2 True] assms
    unfolding fetch_page_def r u by simp
qed

section \<open>Steps of the pagination walk\<close>

lemma logs_only_fields:
  assumes "logs_only st st'"
  shows "visited_urls st' = visited_urls st \<and> all_quotes st' = all_quotes st \<and>
         quote_hashes st' = quote_hashes st \<and> start_time st' = start_time st \<and>
         total_pages st' = total_pages st \<and> total_quotes st' = total_quotes st \<and>
         failed_requests st' = failed_requests st"
proof -
  have e: "st' = st\<lparr>requests := requests st', slept := slept st'\<rparr>"
    using assms by (simp add: logs_only_def)
  show ?thesis by (intro conjI; subst e; simp)
qed

lemma hashes_only_fields:
  assumes "hashes_only st st'"
  shows "visited_urls st' = visited_urls st \<and> all_quotes st' = all_quotes st \<and>
         start_time st' = start_time st \<and>
         total_pages st' = total_pages st \<and> total_quotes st' = total_quotes st \<and>
         failed_requests st' = failed_requests st \<and> requests st' = requests st \<and>
         slept st' = slept st"
proof -
  have e: "st' = st\<lparr>quote_hashes := quote_hashes st'\<rparr>"
    using assms by (simp add: hashes_only_def)
  show ?thesis by (intro conjI; subst e; simp)
qed

lemma record_page_fields:
  "visited_urls (record_page E cfg sels cur html st) = insert cur (visited_urls st) \<and>
   requests (record_page E cfg sels cur html st) = requests st \<and>
   slept (record_page E cfg sels cur html st) = slept st \<and>
   failed_requests (record_page E cfg sels cur html st) = failed_requests st \<and>
   total_pages (record_page E cfg sels cur html st) = total_pages st + 1 \<and>
   all_quotes (record_page E cfg sels cur html st) =
     all_quotes st @
     fst (parse_quotes E cfg html sels (st\<lparr>visited_urls := insert cur (visited_urls st)\<rparr>))"
  using hashes_only_fields [OF parse_quotes_frame
      [where st = "st\<lparr>visited_urls := insert cur (visited_urls st)\<rparr>" and E = E
        and cfg = cfg and html = html and sels = sels]]
  by (simp add: record_page_def case_prod_beta)

lemma fetch_page_fields:
  "visited_urls (snd (fetch_page E url (polite_sleep delay pc st))) = visited_urls st \<and>
   all_quotes (snd (fetch_page E url (polite_sleep delay pc st))) = all_quotes st \<and>
   quote_hashes (snd (fetch_page E url (polite_sleep delay pc st))) = quote_hashes st \<and>
   total_pages (snd (fetch_page E url (polite_sleep delay pc st))) = total_pages st \<and>
   failed_requests (snd (fetch_page E url (polite_sleep delay pc st))) = failed_requests st"
proof -
  have "logs_only st (snd (fetch_page E url (polite_sleep delay pc st)))"
    by (rule logs_only_trans [OF polite_sleep_frame fetch_page_frame])
  then show ?thesis
    using logs_only_fields by simp
qed

lemma parse_loop_done:
  "current_url = [] \<or> current_url \<in> visited_urls st \<Longrightarrow>
   parse_loop E cfg sels delay current_url pc st = Some st"
  by (subst parse_loop.simps) auto

lemma parse_loop_failed:
  assumes "current_url \<noteq> []" and "current_url \<notin> visited_urls st"
    and "fst (fetch_page E current_url (polite_sleep delay pc st)) = Inl e"
  shows "parse_loop E cfg sels delay current_url pc st =
     Some ((snd (fetch_page E current_url (polite_sleep delay pc st)))
            \<lparr>failed_requests := failed_requests st + 1\<rparr>)"
  using assms fetch_page_fields [of E current_url delay pc st]
  by (subst parse_loop.simps) simp

lemma parse_loop_last:
  assumes "current_url \<noteq> []" and "current_url \<notin> visited_urls st"
    and "fst (fetch_page E current_url (polite_sleep delay pc st)) = Inr html"
    and "has_next_page E html sels = None"
  shows "parse_loop E cfg sels delay current_url pc st =
     Some (record_page E cfg sels current_url html
            (snd (fetch_page E current_url (polite_sleep delay pc st))))"
  using assms by (subst parse_loop.simps) simp

lemma parse_loop_next:
  assumes "current_url \<noteq> []" and "current_url \<notin> visited_urls st"
    and "fst (fetch_page E current_url (polite_sleep delay pc st)) = Inr html"
    and "has_next_page E html sels = Some next_page"
  shows "parse_loop E cfg sels delay current_url pc st =
     parse_loop E cfg sels delay (urljoin E current_url next_page) (pc + 1)
       (record_page E cfg sels current_url html
         (snd (fetch_page E current_url (polite_sleep delay pc st))))"
  using assms by (subst parse_loop.simps) simp

lemma parse_loop_next_visited:
  assumes "current_url \<noteq> []" and "current_url \<notin> visited_urls st"
    and "fst (fetch_page E current_url (polite_sleep delay pc st)) = Inr html"
    and "has_next_page E html sels = Some next_page"
    and "urljoin E current_url next_page \<in> insert current_url (visited_urls st)"
  shows "parse_loop E cfg sels delay current_url pc st =
     Some (record_page E cfg sels current_url html
            (snd (fetch_page E current_url (polite_sleep delay pc st))))"
proof -
  have "urljoin E current_url next_page \<in>
      visited_urls (record_page E cfg sels current_url html
         (snd (fetch_page E current_url (polite_sleep delay pc st))))"
    using assms(5) record_page_fields [of E cfg sels current_url html
        "snd (fetch_page E current_url (polite_sleep delay pc st))"]
      fetch_page_fields [of E current_url delay pc st]
    by simp
  then have "parse_loop E cfg sels delay (urljoin E current_url next_page) (pc + 1)
       (record_page E cfg sels current_url html
         (snd (fetch_page E current_url (polite_sleep delay pc st)))) =
     Some (record_page E cfg sels current_url html
            (snd (fetch_page E current_url (polite_sleep delay pc st))))"
    by (intro parse_loop_done disjI2)
  then show ?thesis
    by (simp only: parse_loop_next [OF assms(1-4)])
qed

lemma fetch_page_ok:
  assumes "http_get E (length (requests st)) url = Inr html"
  shows "fetch_page E url st = (Inr html, st\<lparr>requests := requests st @ [url]\<rparr>)"
  using assms
  by (simp add: fetch_page_def retry_on_failure_def fetch_once_def)
     (subst retry_loop.simps, simp add: fetch_once_def)

lemma polite_sleep_requests: "requests (polite_sleep delay pc st) = requests st"
  by (simp add: polite_sleep_def)

lemma parse_loop_exhausted:
  assumes "url \<noteq> []" and "url \<notin> visited_urls st"
    and "\<forall>i<3. http_get E (length (requests st) + i) url = Inl (errs i)"
  shows "parse_loop E cfg sels delay url pc st =
     Some ((polite_sleep delay pc st)
            \<lparr>requests := requests st @ [url, url, url],
             slept := slept (polite_sleep delay pc st) @ [2, 4],
             failed_requests := failed_requests st + 1\<rparr>)"
proof -
  have f: "fetch_page E url (polite_sleep delay pc st) =
     (Inl (errs 2), (polite_sleep delay pc st)
        \<lparr>requests := requests (polite_sleep delay pc st) @ [url, url, url],
         slept := slept (polite_sleep delay pc st) @ [2, 4]\<rparr>)"
    using assms(3) by (intro fetch_page_all_fail) (simp add: polite_sleep_requests)
  show ?thesis
    using parse_loop_failed [OF assms(1,2), of E delay pc "errs 2" cfg sels]
    by (simp add: f polite_sleep_requests)
qed

lemma visited_progress:
  assumes "parse_loop E cfg sels delay current_url pc st = Some st'"
  shows "visited_urls st \<subseteq> visited_urls st' \<and>
         finite (visited_urls st' - visited_urls st) \<and>
         total_pages st' = total_pages st + card (visited_urls st' - visited_urls st)"
proof (rule parse_loop.raw_induct
    [where P = "\<lambda>E cfg sels delay current_url pc st st'.
        visited_urls st \<subseteq> visited_urls st' \<and>
        finite (visited_urls st' - visited_urls st) \<and>
        total_pages st' = total_pages st + card (visited_urls st' - visited_urls st)",
     OF _ assms])
  fix loop :: "'a env \<Rightarrow> settings \<Rightarrow> selector_set \<Rightarrow> nat \<Rightarrow> pystr \<Rightarrow> nat \<Rightarrow> parser \<Rightarrow> parser option"
  fix E cfg sels delay current_url pc st st'
  assume ih: "\<And>E cfg sels delay current_url pc st st'.
      loop E cfg sels delay current_url pc st = Some st' \<Longrightarrow>
        visited_urls st \<subseteq> visited_urls st' \<and>
        finite (visited_urls st' - visited_urls st) \<and>
        total_pages st' = total_pages st + card (visited_urls st' - visited_urls st)"
  assume step: "(if current_url \<noteq> [] \<and> current_url \<notin> visited_urls st then
        (case fst (fetch_page E current_url (polite_sleep delay pc st)) of
           Inl e \<Rightarrow>
             Some ((snd (fetch_page E current_url (polite_sleep delay pc st)))
                    \<lparr>failed_requests :=
                       failed_requests (snd (fetch_page E current_url
                         (polite_sleep delay pc st))) + 1\<rparr>)
         | Inr html \<Rightarrow>
             (case has_next_page E html sels of
                None \<Rightarrow>
                  Some (record_page E cfg sels current_url html
                         (snd (fetch_page E current_url (polite_sleep delay pc st))))
              | Some next_page \<Rightarrow>
                  loop E cfg sels delay (urljoin E current_url next_page) (pc + 1)
                    (record_page E cfg sels current_url html
                      (snd (fetch_page E current_url (polite_sleep delay pc st))))))
      else Some st) = Some st'"
  show "visited_urls st \<subseteq> visited_urls st' \<and>
        finite (visited_urls st' - visited_urls st) \<and>
        total_pages st' = total_pages st + card (visited_urls st' - visited_urls st)"
  proof (cases "current_url \<noteq> [] \<and> current_url \<notin> visited_urls st")
    case False
    from step have "st' = st"
      by (simp only: False if_False option.inject simp_thms)
    then show ?thesis by simp
  next
    case True
    let ?f = "fetch_page E current_url (polite_sleep delay pc st)"
    note ff = fetch_page_fields [of E current_url delay pc st]
    from step have step1: "(case fst ?f of
           Inl e \<Rightarrow> Some ((snd ?f)\<lparr>failed_requests := failed_requests (snd ?f) + 1\<rparr>)
         | Inr html \<Rightarrow>
             (case has_next_page E html sels of
                None \<Rightarrow> Some (record_page E cfg sels current_url html (snd ?f))
              | Some next_page \<Rightarrow>
                  loop E cfg sels delay (urljoin E current_url next_page) (pc + 1)
                    (record_page E cfg sels current_url html (snd ?f)))) = Some st'"
      by (simp only: True if_True simp_thms)
    show ?thesis
    proof (cases "fst ?f")
      case (Inl e)
      from step1 have "st' = (snd ?f)\<lparr>failed_requests := failed_requests (snd ?f) + 1\<rparr>"
        by (simp only: Inl sum.case option.inject)
      then have "visited_urls st' = visited_urls st" and "total_pages st' = total_pages st"
        using ff by simp_all
      then show ?thesis by simp
    next
      case (Inr html)
      let ?st2 = "record_page E cfg sels current_url html (snd ?f)"
      note rf = record_page_fields [of E cfg sels current_url html "snd ?f"]
      have v2: "visited_urls ?st2 = insert current_url (visited_urls st)"
        and p2: "total_pages ?st2 = total_pages st + 1"
        using rf ff by simp_all
      from step1 have step2: "(case has_next_page E html sels of
                None \<Rightarrow> Some ?st2
              | Some next_page \<Rightarrow>
                  loop E cfg sels delay (urljoin E current_url next_page) (pc + 1) ?st2) = Some st'"
        by (simp only: Inr sum.case)
      have c: "current_url \<notin> visited_urls st" using True by simp
      show ?thesis
      proof (cases "has_next_page E html sels")
        case None
        from step2 have "st' = ?st2"
          by (simp only: None option.case option.inject)
        then have "visited_urls st' = insert current_url (visited_urls st)"
          and "total_pages st' = total_pages st + 1"
          using v2 p2 by simp_all
        moreover have "insert current_url (visited_urls st) - visited_urls st = {current_url}"
          using c by auto
        ultimately show ?thesis by auto
      next
        case (Some next_page)
        from step2 have
          "loop E cfg sels delay (urljoin E current_url next_page) (pc + 1) ?st2 = Some st'"
          by (simp only: Some option.case)
        from ih [OF this] have h1: "visited_urls ?st2 \<subseteq> visited_urls st'"
          and h2: "finite (visited_urls st' - visited_urls ?st2)"
          and h3: "total_pages st' = total_pages ?st2 + card (visited_urls st' - visited_urls ?st2)"
          by blast+
        have d: "visited_urls st' - visited_urls st =
            insert current_url (visited_urls st' - insert current_url (visited_urls st))"
          using h1 c unfolding v2 by auto
        have n: "current_url \<notin> visited_urls st' - insert current_url (visited_urls st)"
          by simp
        have "card (visited_urls st' - visited_urls st) =
            Suc (card (visited_urls st' - insert current_url (visited_urls st)))"
          unfolding d using h2 n unfolding v2 by (rule card_insert_disjoint)
        moreover have "finite (visited_urls st' - visited_urls st)"
          unfolding d using h2 unfolding v2 by simp
        moreover have "visited_urls st \<subseteq> visited_urls st'"
          using h1 unfolding v2 by auto
        ultimately show ?thesis
          using h3 unfolding v2 p2 by simp
      qed
    qed
  qed
qed

lemma fetch_page_answered:
  assumes "\<forall>k. http_get E k url = Inr html"
  shows "fetch_page E url (polite_sleep delay pc st) =
     (Inr html, (polite_sleep delay pc st)\<lparr>requests := requests st @ [url]\<rparr>)"
  using fetch_page_ok [of E "polite_sleep delay pc st" url html] assms
  by (simp add: polite_sleep_requests)

lemma polite_sleep_fields:
  "visited_urls (polite_sleep delay pc st) = visited_urls st \<and>
   total_pages (polite_sleep delay pc st) = total_pages st \<and>
   failed_requests (polite_sleep delay pc st) = failed_requests st \<and>
   all_quotes (polite_sleep delay pc st) = all_quotes st \<and>
   quote_hashes (polite_sleep delay pc st) = quote_hashes st"
  by (simp add: polite_sleep_def)

lemma two_page_cycle:
  assumes A: "A \<noteq> []" "A \<notin> visited_urls st" and B: "B \<noteq> []" "B \<notin> visited_urls st"
    and AB: "A \<noteq> B"
    and gA: "\<forall>k. http_get E k A = Inr hA" and gB: "\<forall>k. http_get E k B = Inr hB"
    and nA: "has_next_page E hA sels = Some la" "urljoin E A la = B"
    and nB: "has_next_page E hB sels = Some lb" "urljoin E B lb = A"
  shows "\<exists>st'. parse_loop E cfg sels delay A pc st = Some st' \<and>
           requests st' = requests st @ [A, B] \<and>
           total_pages st' = total_pages st + 2 \<and>
           visited_urls st' = insert B (insert A (visited_urls st))"
proof -
  let ?s1 = "(polite_sleep delay pc st)\<lparr>requests := requests st @ [A]\<rparr>"
  let ?s2 = "record_page E cfg sels A hA ?s1"
  let ?s3 = "(polite_sleep delay (pc + 1) ?s2)\<lparr>requests := requests ?s2 @ [B]\<rparr>"
  let ?s4 = "record_page E cfg sels B hB ?s3"
  have fA: "fetch_page E A (polite_sleep delay pc st) = (Inr hA, ?s1)"
    by (rule fetch_page_answered [OF gA])
  have fB: "fetch_page E B (polite_sleep delay (pc + 1) ?s2) = (Inr hB, ?s3)"
    by (rule fetch_page_answered [OF gB])
  have fA1: "fst (fetch_page E A (polite_sleep delay pc st)) = Inr hA"
    and fA2: "snd (fetch_page E A (polite_sleep delay pc st)) = ?s1"
    by (simp_all only: fA fst_conv snd_conv)
  have fB1: "fst (fetch_page E B (polite_sleep delay (pc + 1) ?s2)) = Inr hB"
    and fB2: "snd (fetch_page E B (polite_sleep delay (pc + 1) ?s2)) = ?s3"
    by (simp_all only: fB fst_conv snd_conv)
  have v1: "visited_urls ?s1 = visited_urls st" and r1: "requests ?s1 = requests st @ [A]"
    and p1: "total_pages ?s1 = total_pages st"
    by (simp_all add: polite_sleep_fields)
  have v2: "visited_urls ?s2 = insert A (visited_urls st)"
    and r2: "requests ?s2 = requests st @ [A]" and p2: "total_pages ?s2 = total_pages st + 1"
    using record_page_fields [of E cfg sels A hA ?s1] v1 r1 p1 by simp_all
  have v3: "visited_urls ?s3 = insert A (visited_urls st)"
    and r3: "requests ?s3 = requests st @ [A, B]" and p3: "total_pages ?s3 = total_pages st + 1"
    using v2 r2 p2 by (simp_all add: polite_sleep_fields)
  have v4: "visited_urls ?s4 = insert B (insert A (visited_urls st))"
    and r4: "requests ?s4 = requests st @ [A, B]" and p4: "total_pages ?s4 = total_pages st + 2"
    using record_page_fields [of E cfg sels B hB ?s3] v3 r3 p3 by simp_all
  have "parse_loop E cfg sels delay A pc st =
      parse_loop E cfg sels delay (urljoin E A la) (pc + 1)
        (record_page E cfg sels A hA (snd (fetch_page E A (polite_sleep delay pc st))))"
    by (rule parse_loop_next [OF A fA1 nA(1)])
  also have "\<dots> = parse_loop E cfg sels delay B (pc + 1) ?s2"
    by (simp only: fA2 nA(2))
  also have "\<dots> = Some (record_page E cfg sels B hB
      (snd (fetch_page E B (polite_sleep delay (pc + 1) ?s2))))"
  proof (rule parse_loop_next_visited [OF B(1) _ fB1 nB(1)])
    show "B \<notin> visited_urls ?s2" using B(2) AB v2 by simp
    show "urljoin E B lb \<in> insert B (visited_urls ?s2)"
      using nB(2) v2 by simp
  qed
  also have "\<dots> = Some ?s4"
    by (simp only: fB2)
  finally show ?thesis
    using r4 p4 v4 by blast
qed

section \<open>The text of an element\<close>

lemma last_dropWhile:
  "dropWhile P xs \<noteq> [] \<Longrightarrow> last (dropWhile P xs) = last xs"
  by (induction xs) (auto split: if_splits)

lemma py_strip_ends:
  assumes "py_strip s \<noteq> []"
  shows "\<not> py_isspace (hd (py_strip s)) \<and> \<not> py_isspace (last (py_strip s))"
proof -
  let ?d = "dropWhile py_isspace s"
  let ?r = "dropWhile py_isspace (rev ?d)"
  have r: "?r \<noteq> []" using assms by (simp add: py_strip_def)
  have d: "?d \<noteq> []"
  proof
    assume e: "?d = []"
    have "?r = []" unfolding e by simp
    with r show False ..
  qed
  have "\<not> py_isspace (hd ?r)" using r by (rule hd_dropWhile)
  moreover have "last ?r = hd ?d"
    using last_dropWhile [OF r] d by (simp add: last_rev)
  moreover have "\<not> py_isspace (hd ?d)" using d by (rule hd_dropWhile)
  ultimately show ?thesis
    using r by (simp add: py_strip_def hd_rev last_rev)
qed

lemma py_strip_id:
  assumes "s \<noteq> []" and "\<not> py_isspace (hd s)" and "\<not> py_isspace (last s)"
  shows "py_strip s = s"
proof -
  have a: "dropWhile py_isspace s = s"
    using assms(1,2) by (cases s) simp_all
  have "rev s \<noteq> []" and "\<not> py_isspace (hd (rev s))"
    using assms(1,3) by (simp_all add: hd_rev)
  then have b: "dropWhile py_isspace (rev s) = rev s"
    by (cases "rev s") simp_all
  show ?thesis by (simp add: py_strip_def a b)
qed

lemma concat_ends:
  assumes "xs \<noteq> []" and "\<forall>x\<in>set xs. x \<noteq> []"
  shows "concat xs \<noteq> [] \<and> hd (concat xs) = hd (hd xs) \<and> last (concat xs) = last (last xs)"
  using assms
proof (induction xs)
  case Nil
  then show ?case by simp
next
  case (Cons x xs)
  then show ?case by (cases xs) auto
qed

lemma get_text_strip_stripped: "py_strip (get_text_strip E e) = get_text_strip E e"
proof -
  let ?xs = "filter (\<lambda>s. s \<noteq> []) (map py_strip (strings E e))"
  show ?thesis
  proof (cases "?xs = []")
    case True
    then show ?thesis by (simp add: get_text_strip_def py_strip_def)
  next
    case False
    have ne: "\<forall>x\<in>set ?xs. x \<noteq> []" by simp
    have ends: "\<forall>x\<in>set ?xs. \<not> py_isspace (hd x) \<and> \<not> py_isspace (last x)"
      using py_strip_ends by auto
    have "hd ?xs \<in> set ?xs" and "last ?xs \<in> set ?xs"
      using False by (rule hd_in_set, rule last_in_set)
    then have "\<not> py_isspace (hd (hd ?xs))" and "\<not> py_isspace (last (last ?xs))"
      using ends by blast+
    then show ?thesis
      using concat_ends [OF False ne]
      unfolding get_text_strip_def by (intro py_strip_id) simp_all
  qed
qed

lemma find_text_in_some:
  "find_text_in E c ss = Some t \<Longrightarrow> t \<noteq> [] \<and> py_strip t = t"
proof (induction ss)
  case Nil
  then show ?case by simp
next
  case (Cons s ss)
  show ?case
  proof (cases "s = []")
    case True
    with Cons show ?thesis by simp
  next
    case False
    show ?thesis
    proof (cases "select_one E c s")
      case None
      with False Cons show ?thesis by simp
    next
      case (Some element)
      show ?thesis
      proof (cases "get_text_strip E element = []")
        case True
        with False Some Cons show ?thesis by simp
      next
        case nonempty: False
        with False Some Cons.prems have "t = get_text_strip E element" by simp
        with nonempty show ?thesis by (simp add: get_text_strip_stripped)
      qed
    qed
  qed
qed

lemma find_element_text_some:
  "find_element_text E c sel = Some t \<Longrightarrow> t \<noteq> [] \<and> py_strip t = t"
  unfolding find_element_text_def by (rule find_text_in_some)

lemma create_quote_object_some:
  "create_quote_object cfg now t a tg = Some q \<Longrightarrow>
   quote q = py_strip t \<and> author q = py_strip a \<and> tags q = tg"
  by (auto simp: create_quote_object_def make_quote_def split: if_splits)

lemma py_strip_unknown: "py_strip (str_of ''Unknown'') = str_of ''Unknown''"
  by (simp add: py_strip_def py_isspace_def str_of_def)
section \<open>One container\<close>

lemma unique_branches:
  "(if fst (is_unique_quote q st) then (Some q, snd (is_unique_quote q st))
    else (None, snd (is_unique_quote q st))) =
   (if fingerprint q \<in> quote_hashes st then (None, st)
    else (Some q, st\<lparr>quote_hashes := insert (fingerprint q) (quote_hashes st)\<rparr>))"
  unfolding is_unique_quote_def fingerprint_def by simp

lemma parse_container_eq:
  "parse_container E cfg sels c st =
     (case find_element_text E c (sel_text sels) of
        None \<Rightarrow> (None, st)
      | Some t \<Rightarrow>
          (case create_quote_object cfg (clock_now E) t
                  (or_unknown (find_element_text E c (sel_author sels)))
                  (find_tags E c (sel_tags sels)) of
             None \<Rightarrow> (None, st)
           | Some q \<Rightarrow>
               if fingerprint q \<in> quote_hashes st then (None, st)
               else (Some q, st\<lparr>quote_hashes := insert (fingerprint q) (quote_hashes st)\<rparr>)))"
proof (cases "find_element_text E c (sel_text sels)")
  case None
  show ?thesis
    unfolding parse_container_def None by (simp only: option.case)
next
  case (Some t)
  have "t \<noteq> []" by (rule find_element_text_some [OF Some, THEN conjunct1])
  then have ne: "(t = []) = False" by simp
  show ?thesis
    unfolding parse_container_def Some
    by (simp only: option.case ne if_False unique_branches)
qed


lemma parse_container_some:
  assumes "fst (parse_container E cfg sels c st) = Some q"
  shows "quote q \<noteq> [] \<and>
         (find_element_text E c (sel_author sels) = None \<longrightarrow> author q = str_of ''Unknown'') \<and>
         fingerprint q \<notin> quote_hashes st \<and>
         quote_hashes (snd (parse_container E cfg sels c st)) = insert (fingerprint q) (quote_hashes st)"
proof (cases "find_element_text E c (sel_text sels)")
  case None
  with assms show ?thesis by (simp add: parse_container_eq)
next
  case (Some t)
  have tt: "t \<noteq> []" "py_strip t = t"
    using find_element_text_some [OF Some] by simp_all
  show ?thesis
  proof (cases "create_quote_object cfg (clock_now E) t
                  (or_unknown (find_element_text E c (sel_author sels)))
                  (find_tags E c (sel_tags sels))")
    case None
    with Some assms show ?thesis by (simp add: parse_container_eq)
  next
    case created: (Some q')
    show ?thesis
    proof (cases "fingerprint q' \<in> quote_hashes st")
      case True
      with Some created assms show ?thesis by (simp add: parse_container_eq)
    next
      case False
      with Some created assms have qq: "q' = q" by (simp add: parse_container_eq)
      have "quote q = t" and "author q = py_strip (or_unknown (find_element_text E c (sel_author sels)))"
        using create_quote_object_some [OF created] tt qq by simp_all
      then show ?thesis
        using tt False Some created qq
        by (simp add: parse_container_eq or_unknown_def py_strip_unknown)
    qed
  qed
qed

lemma parse_container_none:
  assumes "fst (parse_container E cfg sels c st) = None"
  shows "snd (parse_container E cfg sels c st) = st"
  using assms
  by (simp add: parse_container_eq split: option.splits if_splits)

text \<open>
  The loop over the containers keeps the fingerprints of the records it appends apart
  from each other and from those registered before.
\<close>

lemma parse_containers_distinct:
  assumes "distinct (map fingerprint acc)" and "fingerprint ` set acc \<subseteq> quote_hashes st"
  shows "distinct (map fingerprint (fst (parse_containers E cfg sels cs acc st))) \<and>
         (\<exists>new. fst (parse_containers E cfg sels cs acc st) = acc @ new \<and>
            fingerprint ` set new \<inter> quote_hashes st = {} \<and>
            (\<forall>q\<in>set new. quote q \<noteq> []) \<and>
            quote_hashes (snd (parse_containers E cfg sels cs acc st)) =
              quote_hashes st \<union> fingerprint ` set new)"
  using assms
proof (induction cs arbitrary: acc st)
  case Nil
  then show ?case by simp
next
  case (Cons c cs)
  let ?r = "parse_container E cfg sels c st"
  show ?case
  proof (cases "fst ?r")
    case None
    then have s: "snd ?r = st" by (rule parse_container_none)
    show ?thesis
      using Cons.IH [OF Cons.prems] None by (simp add: s)
  next
    case (Some q)
    note p = parse_container_some [OF Some]
    let ?st' = "snd ?r"
    have h: "quote_hashes ?st' = insert (fingerprint q) (quote_hashes st)"
      using p by simp
    have d: "distinct (map fingerprint (acc @ [q]))"
      using Cons.prems p by auto
    have i: "fingerprint ` set (acc @ [q]) \<subseteq> quote_hashes ?st'"
      using Cons.prems(2) h by auto
    from Cons.IH [OF d i] obtain new where
      dn: "distinct (map fingerprint (fst (parse_containers E cfg sels cs (acc @ [q]) ?st')))"
      and e: "fst (parse_containers E cfg sels cs (acc @ [q]) ?st') = (acc @ [q]) @ new"
      and n: "fingerprint ` set new \<inter> quote_hashes ?st' = {}"
      and t: "\<forall>q\<in>set new. quote q \<noteq> []"
      and hs: "quote_hashes (snd (parse_containers E cfg sels cs (acc @ [q]) ?st')) =
          quote_hashes ?st' \<union> fingerprint ` set new"
      by blast
    have "fst (parse_containers E cfg sels (c # cs) acc st) = acc @ (q # new)"
      using Some e by simp
    moreover have "fingerprint ` set (q # new) \<inter> quote_hashes st = {}"
      using n h p by auto
    moreover have "\<forall>x\<in>set (q # new). quote x \<noteq> []"
      using t p by simp
    moreover have "quote_hashes (snd (parse_containers E cfg sels (c # cs) acc st)) =
        quote_hashes st \<union> fingerprint ` set (q # new)"
      using Some hs h by auto
    moreover have "distinct (map fingerprint (fst (parse_containers E cfg sels (c # cs) acc st)))"
      using Some dn by simp
    ultimately show ?thesis by blast
  qed
qed

lemma parse_quotes_distinct:
  "distinct (map fingerprint (fst (parse_quotes E cfg html sels st))) \<and>
   fingerprint ` set (fst (parse_quotes E cfg html sels st)) \<inter> quote_hashes st = {} \<and>
   (\<forall>q\<in>set (fst (parse_quotes E cfg html sels st)). quote q \<noteq> []) \<and>
   quote_hashes (snd (parse_quotes E cfg html sels st)) =
     quote_hashes st \<union> fingerprint ` set (fst (parse_quotes E cfg html sels st))"
proof (cases "quote_containers E (parse_html E html) (ensure_list (sel_quotes sels)) = []")
  case True
  then show ?thesis by (simp add: parse_quotes_def)
next
  case False
  have "distinct (map fingerprint [])" and "fingerprint ` set [] \<subseteq> quote_hashes st"
    by simp_all
  from parse_containers_distinct [OF this, of E cfg sels
      "quote_containers E (parse_html E html) (ensure_list (sel_quotes sels))"]
  show ?thesis
    using False by (auto simp: parse_quotes_def)
qed


text \<open>Every record of the loop carries the text of one of the containers.\<close>

lemma parse_container_source:
  assumes "fst (parse_container E cfg sels c st) = Some q"
  shows "find_element_text E c (sel_text sels) = Some (quote q)"
proof (cases "find_element_text E c (sel_text sels)")
  case None
  with assms show ?thesis by (simp add: parse_container_eq)
next
  case (Some t)
  have tt: "py_strip t = t"
    using find_element_text_some [OF Some] by simp
  show ?thesis
  proof (cases "create_quote_object cfg (clock_now E) t
                  (or_unknown (find_element_text E c (sel_author sels)))
                  (find_tags E c (sel_tags sels))")
    case None
    with Some assms show ?thesis by (simp add: parse_container_eq)
  next
    case created: (Some q')
    have "q' = q"
      using Some created assms by (simp add: parse_container_eq split: if_splits)
    then have "quote q = t"
      using create_quote_object_some [OF created] tt by simp
    then show ?thesis using Some by simp
  qed
qed

lemma parse_containers_source:
  "set (fst (parse_containers E cfg sels cs acc st)) \<subseteq>
     set acc \<union> {q. \<exists>c\<in>set cs. find_element_text E c (sel_text sels) = Some (quote q)}"
proof (induction cs arbitrary: acc st)
  case Nil
  show ?case by simp
next
  case (Cons c cs)
  show ?case
  proof (cases "fst (parse_container E cfg sels c st)")
    case None
    then show ?thesis
      using Cons.IH [of acc "snd (parse_container E cfg sels c st)"] by auto
  next
    case (Some q)
    have "find_element_text E c (sel_text sels) = Some (quote q)"
      using Some by (rule parse_container_source)
    then show ?thesis
      using Some Cons.IH [of "acc @ [q]" "snd (parse_container E cfg sels c st)"] by auto
  qed
qed

end
